theory Spec2Isabelle
  imports Complex_Main
begin

section \<open>Arrays, errors and the outcome of a call\<close>

text \<open>
  The module \<^verbatim>\<open>modAL/models/learners.py\<close> works on numpy arrays. An array with at
  least one axis is modelled by the shape of one row (\<open>trailing\<close>, numpy's
  \<^verbatim>\<open>shape[1:]\<close>) and the list of its rows, each row flattened in C order; a vector of
  \<open>n\<close> scalars has \<open>trailing = []\<close> and \<open>n\<close> rows of one element. Element values are
  abstract: dtype and finiteness checks are not part of the model.
\<close>

datatype error = ValueError | IndexError | TypeError | AttributeError | NotFittedError

datatype 'a ndarray = NdArray (trailing: "nat list") (rws: "'a list list")

text \<open>\<^verbatim>\<open>X.shape[0]\<close> and \<^verbatim>\<open>len(X)\<close>.\<close>

definition n_rows :: "'a ndarray \<Rightarrow> nat" where
  "n_rows A = length (rws A)"

text \<open>
  A Python method mutates \<^verbatim>\<open>self\<close> and either returns or raises; the mutations made
  before a raise stay. Both outcomes therefore carry the state.
\<close>

datatype 's outcome = Returned 's | Raised error 's

fun state_of :: "'s outcome \<Rightarrow> 's" where
  "state_of (Returned s) = s"
| "state_of (Raised e s) = s"

fun raised :: "'s outcome \<Rightarrow> error option" where
  "raised (Returned s) = None"
| "raised (Raised e s) = Some e"

text \<open>
  Modelled from the spec: \<^verbatim>\<open>check_X_y\<close> is the validation collaborator
  (\<^verbatim>\<open>sklearn.utils.check_X_y\<close>, not part of the module): "a shape/alignment checker
  that fails fast with a descriptive error when X and y row counts ... are incompatible".
  The module discards its return value, so only the raise matters.
\<close>

definition check_X_y :: "'x ndarray \<Rightarrow> 'y ndarray \<Rightarrow> error option" where
  "check_X_y X y = (if n_rows X = n_rows y then None else Some ValueError)"

text \<open>
  Modelled from the spec: \<^verbatim>\<open>data_vstack\<close> (\<^verbatim>\<open>modAL.utils.data\<close>, not part of the
  module) is the array-assembly collaborator: "row-wise concatenation of two aligned
  sample/label containers preserving row order"; it fails with a \<^verbatim>\<open>ValueError\<close> "when
  new data's column shape disagrees with previously accumulated training data".
\<close>

definition data_vstack :: "'a ndarray \<Rightarrow> 'a ndarray \<Rightarrow> error + 'a ndarray" where
  "data_vstack A B =
     (if trailing A = trailing B then Inr (NdArray (trailing A) (rws A @ rws B))
      else Inl ValueError)"

text \<open>
  Modelled from the spec: \<^verbatim>\<open>retrieve_rows\<close> (\<^verbatim>\<open>modAL.utils.data\<close>) is "row-retrieval by
  integer index"; for an array it is \<^verbatim>\<open>X[i]\<close>, which raises \<^verbatim>\<open>IndexError\<close> out of range.
\<close>

definition retrieve_rows :: "'a ndarray \<Rightarrow> nat \<Rightarrow> error + 'a list" where
  "retrieve_rows A i = (if i < n_rows A then Inr (rws A ! i) else Inl IndexError)"

text \<open>\<^verbatim>\<open>A[idx]\<close> for a list of row indices (the bootstrap resample).\<close>

definition take_rows :: "'a ndarray \<Rightarrow> nat list \<Rightarrow> error + 'a ndarray" where
  "take_rows A idx =
     (if list_all (\<lambda>i. i < n_rows A) idx
      then Inr (NdArray (trailing A) (map (\<lambda>i. rws A ! i) idx))
      else Inl IndexError)"

section \<open>The trainable model\<close>

text \<open>
  The estimator is an external collaborator. Its state is a type parameter \<open>'e\<close> and its
  methods are the fields of a record handed to every operation. \<open>est_fit\<close> receives what
  the module passes (possibly \<^verbatim>\<open>None\<close>), may raise, and returns the new estimator
  state. \<open>est_classes\<close> is the attribute \<^verbatim>\<open>classes_\<close>, absent (\<open>None\<close>) before fitting.
  \<open>choice n\<close> stands for the draw \<^verbatim>\<open>np.random.choice(range(n), n, replace=True)\<close>:
  the random source is a parameter, one function answers every draw, and no statement
  below depends on what it returns. \<open>est_predict\<close> and \<open>est_predict_proba\<close> are the
  answers of a model that can predict.
\<close>

record ('e, 'x, 'y) estimator_ops =
  est_fit :: "'e \<Rightarrow> 'x ndarray option \<Rightarrow> 'y ndarray option \<Rightarrow> 'e outcome"
  est_predict :: "'e \<Rightarrow> 'x ndarray \<Rightarrow> 'y list"
  est_predict_proba :: "'e \<Rightarrow> 'x ndarray \<Rightarrow> real list list"
  est_classes :: "'e \<Rightarrow> 'y list option"
  choice :: "nat \<Rightarrow> nat list"

section \<open>ActiveLearner\<close>

record ('e, 'x, 'y) ActiveLearner =
  estimator :: 'e
  X_training :: "'x ndarray option"
  y_training :: "'y ndarray option"

text \<open>\<^verbatim>\<open>self.estimator.fit(X, y)\<close>: the estimator is replaced by what the fit leaves.\<close>

definition fit_estimator ::
  "('e, 'x, 'y) estimator_ops \<Rightarrow> 'x ndarray option \<Rightarrow> 'y ndarray option \<Rightarrow>
   ('e, 'x, 'y, 'z) ActiveLearner_scheme \<Rightarrow> ('e, 'x, 'y, 'z) ActiveLearner_scheme outcome" where
  "fit_estimator ops X y s =
     (case est_fit ops (estimator s) X y of
        Returned e \<Rightarrow> Returned (s\<lparr>estimator := e\<rparr>)
      | Raised err e \<Rightarrow> Raised err (s\<lparr>estimator := e\<rparr>))"

text \<open>
  \<^verbatim>\<open>ActiveLearner._add_training_data\<close>. The \<^verbatim>\<open>try\<close> block turns a \<^verbatim>\<open>ValueError\<close> of
  either stacking into the \<^verbatim>\<open>ValueError\<close> of the method; stacking onto a missing
  \<^verbatim>\<open>y_training\<close> is a \<^verbatim>\<open>TypeError\<close>, which passes through.
\<close>

definition add_training_data ::
  "'x ndarray \<Rightarrow> 'y ndarray \<Rightarrow>
   ('e, 'x, 'y, 'z) ActiveLearner_scheme \<Rightarrow> ('e, 'x, 'y, 'z) ActiveLearner_scheme outcome" where
  "add_training_data X y s =
     (case check_X_y X y of
        Some e \<Rightarrow> Raised e s
      | None \<Rightarrow>
          (case X_training s of
             None \<Rightarrow> Returned (s\<lparr>X_training := Some X, y_training := Some y\<rparr>)
           | Some Xt \<Rightarrow>
               (case data_vstack Xt X of
                  Inl e \<Rightarrow> Raised ValueError s
                | Inr Xn \<Rightarrow>
                    let s1 = s\<lparr>X_training := Some Xn\<rparr> in
                    (case y_training s1 of
                       None \<Rightarrow> Raised TypeError s1
                     | Some yt \<Rightarrow>
                         (case data_vstack yt y of
                            Inl e \<Rightarrow> Raised ValueError s1
                          | Inr yn \<Rightarrow> Returned (s1\<lparr>y_training := Some yn\<rparr>))))))"

text \<open>
  \<^verbatim>\<open>ActiveLearner._fit_to_known\<close>. With \<^verbatim>\<open>bootstrap\<close> the rows are resampled:
  \<^verbatim>\<open>self.X_training.shape\<close> raises \<^verbatim>\<open>AttributeError\<close> on \<^verbatim>\<open>None\<close>, and indexing
  \<^verbatim>\<open>None\<close> raises \<^verbatim>\<open>TypeError\<close>.
\<close>

definition fit_to_known ::
  "('e, 'x, 'y) estimator_ops \<Rightarrow> bool \<Rightarrow>
   ('e, 'x, 'y, 'z) ActiveLearner_scheme \<Rightarrow> ('e, 'x, 'y, 'z) ActiveLearner_scheme outcome" where
  "fit_to_known ops bootstrap s =
     (if \<not> bootstrap then fit_estimator ops (X_training s) (y_training s) s
      else
        (case X_training s of
           None \<Rightarrow> Raised AttributeError s
         | Some Xt \<Rightarrow>
             let bootstrap_idx = choice ops (n_rows Xt) in
             (case take_rows Xt bootstrap_idx of
                Inl e \<Rightarrow> Raised e s
              | Inr Xb \<Rightarrow>
                  (case y_training s of
                     None \<Rightarrow> Raised TypeError s
                   | Some yt \<Rightarrow>
                       (case take_rows yt bootstrap_idx of
                          Inl e \<Rightarrow> Raised e s
                        | Inr yb \<Rightarrow> fit_estimator ops (Some Xb) (Some yb) s)))))"

text \<open>
  Modelled from the spec: \<^verbatim>\<open>BaseLearner._fit_on_new\<close> (\<^verbatim>\<open>modAL.models.base\<close>, not part
  of the module) "performs a model-specific fit restricted to only the new batch,
  bypassing the buffer", on a bootstrap resample of the batch when asked ("sampling
  \<open>n\<close> indices uniformly with replacement from the \<open>n\<close> available rows").
\<close>

definition fit_on_new ::
  "('e, 'x, 'y) estimator_ops \<Rightarrow> 'x ndarray \<Rightarrow> 'y ndarray \<Rightarrow> bool \<Rightarrow>
   ('e, 'x, 'y, 'z) ActiveLearner_scheme \<Rightarrow> ('e, 'x, 'y, 'z) ActiveLearner_scheme outcome" where
  "fit_on_new ops X y bootstrap s =
     (if \<not> bootstrap then fit_estimator ops (Some X) (Some y) s
      else
        let bootstrap_idx = choice ops (n_rows X) in
        (case take_rows X bootstrap_idx of
           Inl e \<Rightarrow> Raised e s
         | Inr Xb \<Rightarrow>
             (case take_rows y bootstrap_idx of
                Inl e \<Rightarrow> Raised e s
              | Inr yb \<Rightarrow> fit_estimator ops (Some Xb) (Some yb) s)))"

text \<open>\<^verbatim>\<open>ActiveLearner.fit\<close>\<close>

definition ActiveLearner_fit ::
  "('e, 'x, 'y) estimator_ops \<Rightarrow> 'x ndarray \<Rightarrow> 'y ndarray \<Rightarrow> bool \<Rightarrow>
   ('e, 'x, 'y, 'z) ActiveLearner_scheme \<Rightarrow> ('e, 'x, 'y, 'z) ActiveLearner_scheme outcome" where
  "ActiveLearner_fit ops X y bootstrap s =
     (case check_X_y X y of
        Some e \<Rightarrow> Raised e s
      | None \<Rightarrow> fit_to_known ops bootstrap (s\<lparr>X_training := Some X, y_training := Some y\<rparr>))"

text \<open>\<^verbatim>\<open>ActiveLearner.teach\<close>\<close>

definition ActiveLearner_teach ::
  "('e, 'x, 'y) estimator_ops \<Rightarrow> 'x ndarray \<Rightarrow> 'y ndarray \<Rightarrow> bool \<Rightarrow> bool \<Rightarrow>
   ('e, 'x, 'y, 'z) ActiveLearner_scheme \<Rightarrow> ('e, 'x, 'y, 'z) ActiveLearner_scheme outcome" where
  "ActiveLearner_teach ops X y bootstrap only_new s =
     (if \<not> only_new then
        (case add_training_data X y s of
           Raised e s1 \<Rightarrow> Raised e s1
         | Returned s1 \<Rightarrow> fit_to_known ops bootstrap s1)
      else
        (case check_X_y X y of
           Some e \<Rightarrow> Raised e s
         | None \<Rightarrow> fit_on_new ops X y bootstrap s))"

text \<open>
  \<^verbatim>\<open>ActiveLearner.__init__\<close>. A constructor that raises yields no object, so the
  result is the error or the new learner.
\<close>

definition ActiveLearner_init ::
  "('e, 'x, 'y) estimator_ops \<Rightarrow> 'e \<Rightarrow> 'x ndarray option \<Rightarrow> 'y ndarray option \<Rightarrow> bool \<Rightarrow>
   error + ('e, 'x, 'y) ActiveLearner" where
  "ActiveLearner_init ops e X y bootstrap_init =
     (let s = \<lparr>estimator = e, X_training = X, y_training = y\<rparr> in
      if X \<noteq> None then
        (case fit_to_known ops bootstrap_init s of
           Raised err s1 \<Rightarrow> Inl err
         | Returned s1 \<Rightarrow> Inr s1)
      else Inr s)"

section \<open>BayesianOptimizer\<close>

text \<open>
  \<^verbatim>\<open>np.argmax\<close> over the flattened array: the scan keeps the first index of the largest
  value seen and replaces it only on a strictly larger one; an empty array raises
  \<^verbatim>\<open>ValueError\<close>.
\<close>

fun argmax_loop :: "'a::linorder list \<Rightarrow> nat \<Rightarrow> 'a \<Rightarrow> nat \<Rightarrow> nat" where
  "argmax_loop [] i best best_i = best_i"
| "argmax_loop (v # vs) i best best_i =
     (if best < v then argmax_loop vs (Suc i) v i else argmax_loop vs (Suc i) best best_i)"

definition argmax :: "'a::linorder list \<Rightarrow> error + nat" where
  "argmax vs = (case vs of [] \<Rightarrow> Inl ValueError | v # rest \<Rightarrow> Inr (argmax_loop rest 1 v 0))"

text \<open>
  \<open>y_max\<close> is \<^verbatim>\<open>-np.inf\<close> or the entry \<^verbatim>\<open>y[max_idx]\<close>: a scalar for a vector of labels,
  a row for a matrix; both are kept as the flattened list of their elements.
\<close>

datatype 'y running_max = MinusInf | Value "'y list"

record ('e, 'x, 'y) BayesianOptimizer = "('e, 'x, 'y) ActiveLearner" +
  X_max :: "'x list option"
  y_max :: "'y running_max"

text \<open>
  The test \<^verbatim>\<open>if y_max > self.y_max\<close>. numpy compares elementwise with broadcasting,
  and the truth value of the result is defined only when it has exactly one element:
  otherwise \<^verbatim>\<open>ValueError\<close> is raised (as it is when the shapes cannot be broadcast).
  Every finite label is greater than \<^verbatim>\<open>-np.inf\<close>.
\<close>

fun gt_truth :: "'y::linorder list \<Rightarrow> 'y running_max \<Rightarrow> error + bool" where
  "gt_truth [v] MinusInf = Inr True"
| "gt_truth [v] (Value [w]) = Inr (w < v)"
| "gt_truth new old = Inl ValueError"

text \<open>\<^verbatim>\<open>BayesianOptimizer._set_max\<close>\<close>

definition set_max ::
  "'x ndarray \<Rightarrow> 'y::linorder ndarray \<Rightarrow>
   ('e, 'x, 'y, 'z) BayesianOptimizer_scheme \<Rightarrow> ('e, 'x, 'y, 'z) BayesianOptimizer_scheme outcome" where
  "set_max X y s =
     (case argmax (concat (rws y)) of
        Inl e \<Rightarrow> Raised e s
      | Inr max_idx \<Rightarrow>
          (case retrieve_rows y max_idx of
             Inl e \<Rightarrow> Raised e s
           | Inr y_max_new \<Rightarrow>
               (case gt_truth y_max_new (y_max s) of
                  Inl e \<Rightarrow> Raised e s
                | Inr False \<Rightarrow> Returned s
                | Inr True \<Rightarrow>
                    let s1 = s\<lparr>y_max := Value y_max_new\<rparr> in
                    (case retrieve_rows X max_idx of
                       Inl e \<Rightarrow> Raised e s1
                     | Inr x \<Rightarrow> Returned (s1\<lparr>X_max := Some x\<rparr>)))))"

text \<open>\<^verbatim>\<open>BayesianOptimizer.get_max\<close>\<close>

definition get_max ::
  "('e, 'x, 'y, 'z) BayesianOptimizer_scheme \<Rightarrow> 'x list option \<times> 'y running_max" where
  "get_max s = (X_max s, y_max s)"

text \<open>
  \<^verbatim>\<open>BayesianOptimizer.__init__\<close>. \<^verbatim>\<open>retrieve_rows\<close> of a missing \<^verbatim>\<open>X_training\<close>
  raises \<^verbatim>\<open>TypeError\<close>.
\<close>

definition BayesianOptimizer_init ::
  "('e, 'x, 'y::linorder) estimator_ops \<Rightarrow> 'e \<Rightarrow> 'x ndarray option \<Rightarrow> 'y ndarray option \<Rightarrow>
   bool \<Rightarrow> error + ('e, 'x, 'y) BayesianOptimizer" where
  "BayesianOptimizer_init ops e X y bootstrap_init =
     (case ActiveLearner_init ops e X y bootstrap_init of
        Inl err \<Rightarrow> Inl err
      | Inr s \<Rightarrow>
          (case y_training s of
             Some yt \<Rightarrow>
               (case argmax (concat (rws yt)) of
                  Inl err \<Rightarrow> Inl err
                | Inr max_idx \<Rightarrow>
                    (case X_training s of
                       None \<Rightarrow> Inl TypeError
                     | Some Xt \<Rightarrow>
                         (case retrieve_rows Xt max_idx of
                            Inl err \<Rightarrow> Inl err
                          | Inr x \<Rightarrow>
                              (case retrieve_rows yt max_idx of
                                 Inl err \<Rightarrow> Inl err
                               | Inr v \<Rightarrow>
                                   Inr (ActiveLearner.extend s
                                          \<lparr>X_max = Some x, y_max = Value v\<rparr>)))))
           | None \<Rightarrow> Inr (ActiveLearner.extend s \<lparr>X_max = None, y_max = MinusInf\<rparr>)))"

text \<open>\<^verbatim>\<open>BayesianOptimizer.teach\<close>\<close>

definition BayesianOptimizer_teach ::
  "('e, 'x, 'y::linorder) estimator_ops \<Rightarrow> 'x ndarray \<Rightarrow> 'y ndarray \<Rightarrow> bool \<Rightarrow> bool \<Rightarrow>
   ('e, 'x, 'y, 'z) BayesianOptimizer_scheme \<Rightarrow> ('e, 'x, 'y, 'z) BayesianOptimizer_scheme outcome" where
  "BayesianOptimizer_teach ops X y bootstrap only_new s =
     (case add_training_data X y s of
        Raised e s1 \<Rightarrow> Raised e s1
      | Returned s1 \<Rightarrow>
          (case (if \<not> only_new then fit_to_known ops bootstrap s1
                 else fit_on_new ops X y bootstrap s1) of
             Raised e s2 \<Rightarrow> Raised e s2
           | Returned s2 \<Rightarrow> set_max X y s2))"

text \<open>
  The caller's loop: a sequence of \<^verbatim>\<open>teach\<close> calls, each given by its arguments,
  stopping at the first that raises.
\<close>

record ('x, 'y) teach_call =
  call_X :: "'x ndarray"
  call_y :: "'y ndarray"
  call_bootstrap :: bool
  call_only_new :: bool

fun teach_all ::
  "('e, 'x, 'y::linorder) estimator_ops \<Rightarrow> ('x, 'y) teach_call list \<Rightarrow>
   ('e, 'x, 'y, 'z) BayesianOptimizer_scheme \<Rightarrow> ('e, 'x, 'y, 'z) BayesianOptimizer_scheme outcome" where
  "teach_all ops [] s = Returned s"
| "teach_all ops (c # calls) s =
     (case BayesianOptimizer_teach ops (call_X c) (call_y c) (call_bootstrap c) (call_only_new c) s of
        Raised e s1 \<Rightarrow> Raised e s1
      | Returned s1 \<Rightarrow> teach_all ops calls s1)"

section \<open>Committee\<close>

text \<open>
  A committee owns an ordered list of learners; \<open>classes\<close> and \<open>n_classes\<close> (the
  attributes \<^verbatim>\<open>classes_\<close> and \<^verbatim>\<open>n_classes_\<close>) are derived from them. (\<^verbatim>\<open>Committee.X_training\<close> is always \<^verbatim>\<open>None\<close> and is left out.) A loop
  \<^verbatim>\<open>for learner in self.learner_list\<close> stops at the first learner whose call raises;
  the learners before it stay changed.
\<close>

record ('e, 'x, 'y) Committee =
  learner_list :: "('e, 'x, 'y) ActiveLearner list"
  classes :: "'y list option"
  n_classes :: nat

fun for_each :: "('l \<Rightarrow> 'l outcome) \<Rightarrow> 'l list \<Rightarrow> 'l list outcome" where
  "for_each f [] = Returned []"
| "for_each f (l # ls) =
     (case f l of
        Raised e l1 \<Rightarrow> Raised e (l1 # ls)
      | Returned l1 \<Rightarrow>
          (case for_each f ls of
             Raised e ls1 \<Rightarrow> Raised e (l1 # ls1)
           | Returned ls1 \<Rightarrow> Returned (l1 # ls1)))"

definition on_learners ::
  "(('e, 'x, 'y) ActiveLearner \<Rightarrow> ('e, 'x, 'y) ActiveLearner outcome) \<Rightarrow>
   ('e, 'x, 'y) Committee \<Rightarrow> ('e, 'x, 'y) Committee outcome" where
  "on_learners f c =
     (case for_each f (learner_list c) of
        Raised e ls \<Rightarrow> Raised e (c\<lparr>learner_list := ls\<rparr>)
      | Returned ls \<Rightarrow> Returned (c\<lparr>learner_list := ls\<rparr>))"

text \<open>The class labels each member knows: \<^verbatim>\<open>learner.estimator.classes_\<close>.\<close>

definition known_classes ::
  "('e, 'x, 'y) estimator_ops \<Rightarrow> ('e, 'x, 'y) Committee \<Rightarrow> 'y list option list" where
  "known_classes ops c = map (\<lambda>l. est_classes ops (estimator l)) (learner_list c)"

text \<open>
  Modelled from the spec: \<^verbatim>\<open>BaseCommittee._set_classes\<close> (\<^verbatim>\<open>modAL.models.base\<close>, not
  part of the module) "derives \<^verbatim>\<open>classes_\<close>: the sorted union of every member's known
  class labels; \<^verbatim>\<open>n_classes_\<close> = its cardinality". The spec gives the value for fitted
  members; while a member has no \<^verbatim>\<open>classes_\<close> yet there is nothing to merge, and
  \<open>classes\<close> stays unset with \<open>n_classes = 0\<close>.
\<close>

definition set_classes ::
  "('e, 'x, 'y::linorder) estimator_ops \<Rightarrow> ('e, 'x, 'y) Committee \<Rightarrow> ('e, 'x, 'y) Committee" where
  "set_classes ops c =
     (let known = known_classes ops c in
      if list_ex (\<lambda>k. k = None) known then c\<lparr>classes := None, n_classes := 0\<rparr>
      else
        let merged = sort (remdups (concat (map (\<lambda>k. case k of None \<Rightarrow> [] | Some cs \<Rightarrow> cs) known)))
        in c\<lparr>classes := Some merged, n_classes := length merged\<rparr>)"

text \<open>\<^verbatim>\<open>Committee.__init__\<close>\<close>

definition Committee_init ::
  "('e, 'x, 'y::linorder) estimator_ops \<Rightarrow> ('e, 'x, 'y) ActiveLearner list \<Rightarrow> ('e, 'x, 'y) Committee" where
  "Committee_init ops ls = set_classes ops \<lparr>learner_list = ls, classes = None, n_classes = 0\<rparr>"

text \<open>\<^verbatim>\<open>Committee._add_training_data\<close> and \<^verbatim>\<open>Committee._fit_to_known\<close>\<close>

definition Committee_add_training_data ::
  "'x ndarray \<Rightarrow> 'y ndarray \<Rightarrow> ('e, 'x, 'y) Committee \<Rightarrow> ('e, 'x, 'y) Committee outcome" where
  "Committee_add_training_data X y c = on_learners (add_training_data X y) c"

definition Committee_fit_to_known ::
  "('e, 'x, 'y) estimator_ops \<Rightarrow> bool \<Rightarrow> ('e, 'x, 'y) Committee \<Rightarrow> ('e, 'x, 'y) Committee outcome" where
  "Committee_fit_to_known ops bootstrap c = on_learners (fit_to_known ops bootstrap) c"

text \<open>
  Modelled from the spec: \<^verbatim>\<open>BaseCommittee._fit_on_new\<close> (\<^verbatim>\<open>modAL.models.base\<close>, not
  part of the module): the committee "restricts to the new batch only", each member in
  turn.
\<close>

definition Committee_fit_on_new ::
  "('e, 'x, 'y) estimator_ops \<Rightarrow> 'x ndarray \<Rightarrow> 'y ndarray \<Rightarrow> bool \<Rightarrow>
   ('e, 'x, 'y) Committee \<Rightarrow> ('e, 'x, 'y) Committee outcome" where
  "Committee_fit_on_new ops X y bootstrap c = on_learners (fit_on_new ops X y bootstrap) c"

text \<open>\<^verbatim>\<open>Committee.fit\<close>: \<^verbatim>\<open>_set_classes\<close> runs only when every member's fit returned.\<close>

definition Committee_fit ::
  "('e, 'x, 'y::linorder) estimator_ops \<Rightarrow> 'x ndarray \<Rightarrow> 'y ndarray \<Rightarrow>
   ('e, 'x, 'y) Committee \<Rightarrow> ('e, 'x, 'y) Committee outcome" where
  "Committee_fit ops X y c =
     (case on_learners (ActiveLearner_fit ops X y False) c of
        Raised e c1 \<Rightarrow> Raised e c1
      | Returned c1 \<Rightarrow> Returned (set_classes ops c1))"

text \<open>\<^verbatim>\<open>Committee.rebag\<close>\<close>

definition Committee_rebag ::
  "('e, 'x, 'y) estimator_ops \<Rightarrow> ('e, 'x, 'y) Committee \<Rightarrow> ('e, 'x, 'y) Committee outcome" where
  "Committee_rebag ops c = Committee_fit_to_known ops True c"

text \<open>\<^verbatim>\<open>Committee.teach\<close>\<close>

definition Committee_teach ::
  "('e, 'x, 'y::linorder) estimator_ops \<Rightarrow> 'x ndarray \<Rightarrow> 'y ndarray \<Rightarrow> bool \<Rightarrow> bool \<Rightarrow>
   ('e, 'x, 'y) Committee \<Rightarrow> ('e, 'x, 'y) Committee outcome" where
  "Committee_teach ops X y bootstrap only_new c =
     (case Committee_add_training_data X y c of
        Raised e c1 \<Rightarrow> Raised e c1
      | Returned c1 \<Rightarrow>
          (case (if \<not> only_new then Committee_fit_to_known ops bootstrap c1
                 else Committee_fit_on_new ops X y bootstrap c1) of
             Raised e c2 \<Rightarrow> Raised e c2
           | Returned c2 \<Rightarrow> Returned (set_classes ops c2)))"

text \<open>
  The invariant of the spec: \<open>classes\<close> is the sorted, duplicate-free list of the
  labels some member knows, and \<open>n_classes\<close> their number.
\<close>

definition classes_are_union ::
  "('e, 'x, 'y::linorder) estimator_ops \<Rightarrow> ('e, 'x, 'y) Committee \<Rightarrow> bool" where
  "classes_are_union ops c =
     (\<exists>cs. classes c = Some cs \<and> sorted cs \<and> distinct cs \<and>
        set cs = (\<Union>l\<in>set (learner_list c).
                    case est_classes ops (estimator l) of None \<Rightarrow> {} | Some k \<Rightarrow> set k) \<and>
        n_classes c = card (set cs))"

section \<open>Votes and consensus\<close>

text \<open>
  An assignment into a slice of a preallocated array, \<^verbatim>\<open>a[:, j] = v\<close>, broadcasts:
  along an axis of length \<open>n\<close> the source must have length \<open>n\<close> or \<open>1\<close>, and anything
  else raises \<^verbatim>\<open>ValueError\<close>.
\<close>

definition broadcast_to :: "nat \<Rightarrow> 'a list \<Rightarrow> error + 'a list" where
  "broadcast_to n v =
     (if length v = n then Inr v
      else case v of [x] \<Rightarrow> Inr (replicate n x) | _ \<Rightarrow> Inl ValueError)"

fun broadcast_each :: "nat \<Rightarrow> 'a list list \<Rightarrow> error + 'a list list" where
  "broadcast_each c [] = Inr []"
| "broadcast_each c (r # rs) =
     (case broadcast_to c r of
        Inl e \<Rightarrow> Inl e
      | Inr r1 \<Rightarrow>
          (case broadcast_each c rs of
             Inl e \<Rightarrow> Inl e
           | Inr rs1 \<Rightarrow> Inr (r1 # rs1)))"

definition broadcast_to_2d :: "nat \<Rightarrow> nat \<Rightarrow> 'a list list \<Rightarrow> error + 'a list list" where
  "broadcast_to_2d n c V =
     (case broadcast_each c V of Inl e \<Rightarrow> Inl e | Inr V1 \<Rightarrow> broadcast_to n V1)"

text \<open>\<^verbatim>\<open>prediction[:, learner_idx] = col\<close> on a matrix kept as its list of rows.\<close>

definition assign_column :: "'a list list \<Rightarrow> nat \<Rightarrow> 'a list \<Rightarrow> error + 'a list list" where
  "assign_column prediction j col =
     (case broadcast_to (length prediction) col of
        Inl e \<Rightarrow> Inl e
      | Inr col1 \<Rightarrow> Inr (map2 (\<lambda>row v. row[j := v]) prediction col1))"

text \<open>
  \<^verbatim>\<open>proba[:, learner_idx, :] = V\<close> on a tensor of shape
  \<open>(n_samples, n_learners, n_cls)\<close> kept as samples of learner rows.
\<close>

definition assign_slab ::
  "nat \<Rightarrow> 'a list list list \<Rightarrow> nat \<Rightarrow> 'a list list \<Rightarrow> error + 'a list list list" where
  "assign_slab n_cls proba j V =
     (case broadcast_to_2d (length proba) n_cls V of
        Inl e \<Rightarrow> Inl e
      | Inr V1 \<Rightarrow> Inr (map2 (\<lambda>sample r. sample[j := r]) proba V1))"

text \<open>\<^verbatim>\<open>for learner_idx, learner in enumerate(self.learner_list)\<close>, stopping at a raise.\<close>

fun enumerate_loop ::
  "('acc \<Rightarrow> nat \<Rightarrow> 'l \<Rightarrow> error + 'acc) \<Rightarrow> 'acc \<Rightarrow> nat \<Rightarrow> 'l list \<Rightarrow> error + 'acc" where
  "enumerate_loop step acc j [] = Inr acc"
| "enumerate_loop step acc j (l # ls) =
     (case step acc j l of
        Inl e \<Rightarrow> Inl e
      | Inr acc1 \<Rightarrow> enumerate_loop step acc1 (Suc j) ls)"

text \<open>
  The matrix of \<^verbatim>\<open>vote\<close> is \<^verbatim>\<open>np.zeros\<close>, an array of floats (modelled as real
  numbers), so an assignment into it converts every label to a float. The conversion is
  a parameter: \<open>as_float l\<close> is the float numpy makes of the label \<open>l\<close>, or \<open>None\<close> when
  the conversion raises \<^verbatim>\<open>ValueError\<close> (a label that is no number).
\<close>

fun cast_all :: "('y \<Rightarrow> real option) \<Rightarrow> 'y list \<Rightarrow> error + real list" where
  "cast_all as_float [] = Inr []"
| "cast_all as_float (l # ls) =
     (case as_float l of
        None \<Rightarrow> Inl ValueError
      | Some v \<Rightarrow>
          (case cast_all as_float ls of
             Inl e \<Rightarrow> Inl e
           | Inr vs \<Rightarrow> Inr (v # vs)))"

text \<open>\<^verbatim>\<open>Committee.vote\<close>\<close>

definition Committee_vote ::
  "('y \<Rightarrow> real option) \<Rightarrow> ('e, 'x, 'y) estimator_ops \<Rightarrow> 'x ndarray \<Rightarrow>
   ('e, 'x, 'y) Committee \<Rightarrow> error + real list list" where
  "Committee_vote as_float ops X c =
     (let prediction = replicate (n_rows X) (replicate (length (learner_list c)) 0) in
      enumerate_loop
        (\<lambda>prediction learner_idx learner.
           case cast_all as_float (est_predict ops (estimator learner) X) of
             Inl e \<Rightarrow> Inl e
           | Inr col \<Rightarrow> assign_column prediction learner_idx col)
        prediction 0 (learner_list c))"

text \<open>
  Modelled from the spec: \<^verbatim>\<open>check_class_labels\<close> (\<^verbatim>\<open>modAL.utils.validation\<close>, not
  part of the module) tells whether "all members share an identical class-label set
  (order-insensitive)". A member without \<^verbatim>\<open>classes_\<close> cannot be compared: the call
  raises.
\<close>

fun same_label_sets :: "'y list list \<Rightarrow> bool" where
  "same_label_sets (a # b # rest) = (set a = set b \<and> same_label_sets (b # rest))"
| "same_label_sets rest = True"

definition check_class_labels :: "'y list option list \<Rightarrow> error + bool" where
  "check_class_labels known =
     (if list_ex (\<lambda>k. k = None) known then Inl NotFittedError
      else Inr (same_label_sets (map (\<lambda>k. case k of None \<Rightarrow> [] | Some cs \<Rightarrow> cs) known)))"

text \<open>
  Modelled from the spec: \<^verbatim>\<open>check_class_proba\<close> (\<^verbatim>\<open>modAL.utils.validation\<close>, not part
  of the module) scatters a member's probability rows into the full class space: "any
  class unknown to that member receives probability 0 ..., while recognized classes keep
  their predicted probability at the position matching that class's rank within the
  unified \<^verbatim>\<open>classes_\<close> vector". The probability of a known label is the entry of the row
  at the label's position among the member's labels.
\<close>

definition scatter_row :: "'y list \<Rightarrow> 'y list \<Rightarrow> real list \<Rightarrow> real list" where
  "scatter_row known_labels all_labels row =
     map (\<lambda>label. case map_of (zip known_labels row) label of None \<Rightarrow> 0 | Some p \<Rightarrow> p) all_labels"

definition check_class_proba :: "real list list \<Rightarrow> 'y list \<Rightarrow> 'y list \<Rightarrow> real list list" where
  "check_class_proba proba known_labels all_labels = map (scatter_row known_labels all_labels) proba"

text \<open>
  \<^verbatim>\<open>Committee.vote_proba\<close>. In the second branch a missing \<^verbatim>\<open>classes_\<close> of a member
  is an \<^verbatim>\<open>AttributeError\<close> and a committee whose \<open>classes\<close> is unset raises
  \<^verbatim>\<open>TypeError\<close>.
\<close>

definition Committee_vote_proba ::
  "('e, 'x, 'y) estimator_ops \<Rightarrow> 'x ndarray \<Rightarrow> ('e, 'x, 'y) Committee \<Rightarrow>
   error + real list list list" where
  "Committee_vote_proba ops X c =
     (let n_samples = n_rows X;
          n_learners = length (learner_list c);
          proba = replicate n_samples (replicate n_learners (replicate (n_classes c) 0))
      in
      case check_class_labels (known_classes ops c) of
        Inl e \<Rightarrow> Inl e
      | Inr True \<Rightarrow>
          enumerate_loop
            (\<lambda>proba learner_idx learner.
               assign_slab (n_classes c) proba learner_idx
                 (est_predict_proba ops (estimator learner) X))
            proba 0 (learner_list c)
      | Inr False \<Rightarrow>
          enumerate_loop
            (\<lambda>proba learner_idx learner.
               case est_classes ops (estimator learner) of
                 None \<Rightarrow> Inl AttributeError
               | Some known_labels \<Rightarrow>
                   (case classes c of
                      None \<Rightarrow> Inl TypeError
                    | Some all_labels \<Rightarrow>
                        assign_slab (n_classes c) proba learner_idx
                          (check_class_proba (est_predict_proba ops (estimator learner) X)
                             known_labels all_labels)))
            proba 0 (learner_list c))"








section \<open>DeepCommittee\<close>

text \<open>A deep learner keeps no training data; \<^verbatim>\<open>DeepCommittee.vote\<close> is the same code.\<close>

record 'e DeepActiveLearner =
  deep_estimator :: 'e

record ('e, 'y) DeepCommittee =
  deep_learner_list :: "'e DeepActiveLearner list"
  deep_classes :: "'y list option"
  deep_n_classes :: nat

definition DeepCommittee_vote ::
  "('y \<Rightarrow> real option) \<Rightarrow> ('e, 'x, 'y) estimator_ops \<Rightarrow> 'x ndarray \<Rightarrow>
   ('e, 'y) DeepCommittee \<Rightarrow> error + real list list" where
  "DeepCommittee_vote as_float ops X c =
     (let prediction = replicate (n_rows X) (replicate (length (deep_learner_list c)) 0) in
      enumerate_loop
        (\<lambda>prediction learner_idx learner.
           case cast_all as_float (est_predict ops (deep_estimator learner) X) of
             Inl e \<Rightarrow> Inl e
           | Inr col \<Rightarrow> assign_column prediction learner_idx col)
        prediction 0 (deep_learner_list c))"

section \<open>CommitteeRegressor\<close>

text \<open>
  The members of a regression committee predict real values;
  \<^verbatim>\<open>learner.predict(X).reshape(-1, )\<close> is the flat list of them.
\<close>

record ('e, 'x) CommitteeRegressor =
  regressor_list :: "('e, 'x, real) ActiveLearner list"

text \<open>\<^verbatim>\<open>CommitteeRegressor.vote\<close>\<close>

definition CommitteeRegressor_vote ::
  "('e, 'x, real) estimator_ops \<Rightarrow> 'x ndarray \<Rightarrow> ('e, 'x) CommitteeRegressor \<Rightarrow>
   error + real list list" where
  "CommitteeRegressor_vote ops X c =
     (let prediction = replicate (n_rows X) (replicate (length (regressor_list c)) 0) in
      enumerate_loop
        (\<lambda>prediction learner_idx learner.
           assign_column prediction learner_idx (est_predict ops (estimator learner) X))
        prediction 0 (regressor_list c))"







section \<open>A concrete estimator for the examples\<close>

text \<open>
  A classifier that memorises the labels it was fitted on and predicts the class
  frequencies for every sample (the "prior" strategy of a dummy classifier). It is
  unfitted while it holds no labels. Its draw for a bootstrap is the identity.
\<close>

definition majority :: "int list \<Rightarrow> int" where
  "majority e =
     (let cs = sort (remdups e) in
      case argmax (map (count_list e) cs) of Inr i \<Rightarrow> cs ! i | Inl err \<Rightarrow> 0)"

definition prior_ops :: "(int list, real, int) estimator_ops" where
  "prior_ops =
     \<lparr>est_fit = (\<lambda>e X y. case y of None \<Rightarrow> Raised TypeError e
                                   | Some yt \<Rightarrow> Returned (concat (rws yt))),
      est_predict = (\<lambda>e X. replicate (n_rows X) (majority e)),
      est_predict_proba = (\<lambda>e X. replicate (n_rows X)
          (map (\<lambda>c. real (count_list e c) / real (length e)) (sort (remdups e)))),
      est_classes = (\<lambda>e. if e = [] then None else Some (sort (remdups e))),
      choice = (\<lambda>n. [0..<n])\<rparr>"

text \<open>A learner holding one sample with a two-column (multi-output) label.\<close>

definition lrn0 :: "(int list, real, int) ActiveLearner" where
  "lrn0 = \<lparr>estimator = [0, 1], X_training = Some (NdArray [2] [[1, 2]]),
          y_training = Some (NdArray [2] [[0, 1]])\<rparr>"

text \<open>
  The running maximum after the labels \<open>labels\<close> have been seen, paired with their
  sample rows in \<open>pairs\<close>: nothing yet, or the largest label and a row that carries it.
\<close>

definition max_is ::
  "'y::linorder list \<Rightarrow> ('x list \<times> 'y list) list \<Rightarrow>
   ('e, 'x, 'y, 'z) BayesianOptimizer_scheme \<Rightarrow> bool" where
  "max_is labels pairs s =
     (if labels = [] then X_max s = None \<and> y_max s = MinusInf
      else y_max s = Value [Max (set labels)] \<and>
           (\<exists>x. X_max s = Some x \<and> (x, [Max (set labels)]) \<in> set pairs))"


text \<open>
  An optimizer without initial data and four single-row \<^verbatim>\<open>teach\<close> calls with the
  labels 3, 5, 1, 2; \<open>opt4\<close> is the optimizer after them.
\<close>

definition opt0 :: "(int list, real, int) BayesianOptimizer" where
  "opt0 = \<lparr>estimator = [], X_training = None, y_training = None, X_max = None, y_max = MinusInf\<rparr>"

definition calls_3512 :: "(real, int) teach_call list" where
  "calls_3512 =
     [\<lparr>call_X = NdArray [1] [[10]], call_y = NdArray [] [[3]], call_bootstrap = False, call_only_new = False\<rparr>,
      \<lparr>call_X = NdArray [1] [[11]], call_y = NdArray [] [[5]], call_bootstrap = False, call_only_new = False\<rparr>,
      \<lparr>call_X = NdArray [1] [[12]], call_y = NdArray [] [[1]], call_bootstrap = False, call_only_new = False\<rparr>,
      \<lparr>call_X = NdArray [1] [[13]], call_y = NdArray [] [[2]], call_bootstrap = False, call_only_new = False\<rparr>]"

definition opt4 :: "(int list, real, int) BayesianOptimizer" where
  "opt4 = \<lparr>estimator = [3, 5, 1, 2],
           X_training = Some (NdArray [1] [[10], [11], [12], [13]]),
           y_training = Some (NdArray [] [[3], [5], [1], [2]]),
           X_max = Some [11], y_max = Value [5]\<rparr>"

text \<open>
  An optimizer constructed with three initial samples labelled 3, 5, 5 (the maximum
  comes twice: the first row that carries it is kept), two further \<^verbatim>\<open>teach\<close> calls with
  the smaller labels 1 and 4, and the optimizer after them.
\<close>

definition X_init :: "real ndarray" where
  "X_init = NdArray [1] [[10], [11], [12]]"

definition y_init :: "int ndarray" where
  "y_init = NdArray [] [[3], [5], [5]]"

definition opt_init :: "(int list, real, int) BayesianOptimizer" where
  "opt_init = \<lparr>estimator = [3, 5, 5], X_training = Some X_init, y_training = Some y_init,
               X_max = Some [11], y_max = Value [5]\<rparr>"

definition calls_14 :: "(real, int) teach_call list" where
  "calls_14 =
     [\<lparr>call_X = NdArray [1] [[13]], call_y = NdArray [] [[1]], call_bootstrap = False, call_only_new = False\<rparr>,
      \<lparr>call_X = NdArray [1] [[14]], call_y = NdArray [] [[4]], call_bootstrap = False, call_only_new = False\<rparr>]"

definition opt_taught :: "(int list, real, int) BayesianOptimizer" where
  "opt_taught = \<lparr>estimator = [3, 5, 5, 1, 4],
                 X_training = Some (NdArray [1] [[10], [11], [12], [13], [14]]),
                 y_training = Some (NdArray [] [[3], [5], [5], [1], [4]]),
                 X_max = Some [11], y_max = Value [5]\<rparr>"

text \<open>
  An estimator like \<open>prior_ops\<close> whose fit refuses labels of fewer than two classes.
\<close>

definition two_class_ops :: "(int list, real, int) estimator_ops" where
  "two_class_ops =
     prior_ops\<lparr>est_fit := (\<lambda>e X y. case y of None \<Rightarrow> Raised TypeError e
        | Some yt \<Rightarrow> if length (remdups (concat (rws yt))) < 2 then Raised ValueError e
                      else Returned (concat (rws yt)))\<rparr>"


text \<open>The optimizer after the labels 3 and 5, and after a further label 7 taught with \<^verbatim>\<open>only_new\<close>.\<close>

definition opt2 :: "(int list, real, int) BayesianOptimizer" where
  "opt2 = \<lparr>estimator = [3, 5],
           X_training = Some (NdArray [1] [[10], [11]]),
           y_training = Some (NdArray [] [[3], [5]]),
           X_max = Some [11], y_max = Value [5]\<rparr>"

definition opt3 :: "(int list, real, int) BayesianOptimizer" where
  "opt3 = \<lparr>estimator = [7],
           X_training = Some (NdArray [1] [[10], [11], [12]]),
           y_training = Some (NdArray [] [[3], [5], [7]]),
           X_max = Some [12], y_max = Value [7]\<rparr>"

text \<open>
  Two fitted learners that know the labels \<open>{0, 1}\<close> and \<open>{1, 2}\<close>, and their committee.
\<close>

definition lrnA :: "(int list, real, int) ActiveLearner" where
  "lrnA = \<lparr>estimator = [0, 1], X_training = Some (NdArray [1] [[1], [2]]),
          y_training = Some (NdArray [] [[0], [1]])\<rparr>"

definition lrnB :: "(int list, real, int) ActiveLearner" where
  "lrnB = \<lparr>estimator = [1, 2], X_training = Some (NdArray [1] [[3], [4]]),
          y_training = Some (NdArray [] [[1], [2]])\<rparr>"

definition committeeAB :: "(int list, real, int) Committee" where
  "committeeAB = \<lparr>learner_list = [lrnA, lrnB], classes = Some [0, 1, 2], n_classes = 3\<rparr>"

text \<open>
  Two members for the scattering example: the first knows \<open>{0, 1}\<close> and predicts the
  probabilities \<open>[0.3, 0.7]\<close>, the second knows \<open>{1, 2}\<close> and predicts \<open>[0.25, 0.75]\<close>.
  \<open>committeeA\<close> has one member, which predicts \<open>[0.5, 0.5]\<close>: a tie.
\<close>

definition lrnP :: "(int list, real, int) ActiveLearner" where
  "lrnP = \<lparr>estimator = [0, 0, 0, 1, 1, 1, 1, 1, 1, 1], X_training = None, y_training = None\<rparr>"

definition lrnQ :: "(int list, real, int) ActiveLearner" where
  "lrnQ = \<lparr>estimator = [1, 2, 2, 2], X_training = None, y_training = None\<rparr>"

definition committeePQ :: "(int list, real, int) Committee" where
  "committeePQ = \<lparr>learner_list = [lrnP, lrnQ], classes = Some [0, 1, 2], n_classes = 3\<rparr>"



text \<open>
  An estimator that always predicts the value it holds, committees of such estimators
  with string labels (\<open>"cat"\<close> has no float value) and with real predictions, and a
  conversion that knows the numeric strings \<open>"0"\<close> and \<open>"1"\<close>.
\<close>

definition const_ops :: "('y, 'x, 'y) estimator_ops" where
  "const_ops =
     \<lparr>est_fit = (\<lambda>e X y. Returned e),
      est_predict = (\<lambda>e X. replicate (n_rows X) e),
      est_predict_proba = (\<lambda>e X. replicate (n_rows X) [1]),
      est_classes = (\<lambda>e. Some [e]),
      choice = (\<lambda>n. [0..<n])\<rparr>"

definition digit_as_float :: "string \<Rightarrow> real option" where
  "digit_as_float s = (if s = ''0'' then Some 0 else if s = ''1'' then Some 1 else None)"

definition const_learner :: "'y \<Rightarrow> ('y, real, 'y) ActiveLearner" where
  "const_learner v = \<lparr>estimator = v, X_training = None, y_training = None\<rparr>"

definition committee10 :: "(string, real, string) Committee" where
  "committee10 = \<lparr>learner_list = [const_learner ''1'', const_learner ''0''],
                  classes = Some [''0'', ''1''], n_classes = 2\<rparr>"

definition committee_cat :: "(string, real, string) Committee" where
  "committee_cat = \<lparr>learner_list = [const_learner ''1'', const_learner ''cat''],
                  classes = Some [''1'', ''cat''], n_classes = 2\<rparr>"

definition deep10 :: "(string, string) DeepCommittee" where
  "deep10 = \<lparr>deep_learner_list = [\<lparr>deep_estimator = ''1''\<rparr>, \<lparr>deep_estimator = ''0''\<rparr>],
             deep_classes = Some [''0'', ''1''], deep_n_classes = 2\<rparr>"

definition deep_cat :: "(string, string) DeepCommittee" where
  "deep_cat = \<lparr>deep_learner_list = [\<lparr>deep_estimator = ''1''\<rparr>, \<lparr>deep_estimator = ''cat''\<rparr>],
             deep_classes = Some [''1'', ''cat''], deep_n_classes = 2\<rparr>"





section \<open>Properties of ActiveLearner\<close>

lemma fit_estimator_buffers:
  "X_training (state_of (fit_estimator ops A b s)) = X_training s \<and>
   y_training (state_of (fit_estimator ops A b s)) = y_training s"
  by (simp add: fit_estimator_def split: outcome.splits)

lemma fit_to_known_buffers:
  "X_training (state_of (fit_to_known ops b s)) = X_training s \<and>
   y_training (state_of (fit_to_known ops b s)) = y_training s"
  by (simp add: fit_to_known_def fit_estimator_buffers Let_def split: option.splits sum.splits)

lemma fit_on_new_buffers:
  "X_training (state_of (fit_on_new ops X y b s)) = X_training s \<and>
   y_training (state_of (fit_on_new ops X y b s)) = y_training s"
  by (simp add: fit_on_new_def fit_estimator_buffers Let_def split: option.splits sum.splits)

lemma fit_on_new_plain:
  "estimator (state_of (fit_on_new ops X y False s)) =
     state_of (est_fit ops (estimator s) (Some X) (Some y))"
  by (simp add: fit_on_new_def fit_estimator_def split: outcome.splits)

text \<open>
  The failures that do leave the learner as it was: a row-count mismatch between \<open>X\<close>
  and \<open>y\<close> (in \<^verbatim>\<open>teach\<close> with either flag), and samples whose row shape disagrees
  with the buffer.
\<close>

lemma teach_row_mismatch_unchanged:
  "n_rows X \<noteq> n_rows y \<Longrightarrow>
   ActiveLearner_teach ops X y bootstrap only_new s = Raised ValueError s"
  by (simp add: ActiveLearner_teach_def add_training_data_def check_X_y_def)

lemma teach_sample_shape_mismatch_unchanged:
  "X_training s = Some Xt \<Longrightarrow> trailing Xt \<noteq> trailing X \<Longrightarrow>
   raised (ActiveLearner_teach ops X y bootstrap False s) = Some ValueError \<and>
   state_of (ActiveLearner_teach ops X y bootstrap False s) = s"
  by (simp add: ActiveLearner_teach_def add_training_data_def check_X_y_def data_vstack_def)

text \<open>
  C1: a \<^verbatim>\<open>teach\<close> that raises a validation error should leave \<open>X_training\<close> and
  \<open>y_training\<close> as they were. \<^verbatim>\<open>_add_training_data\<close> assigns the stacked samples to
  \<open>X_training\<close> before it stacks the labels, so when the labels of the new batch have a
  row shape other than the buffer's (here three label columns against two), the call
  raises \<^verbatim>\<open>ValueError\<close> with the new sample already appended to \<open>X_training\<close> and
  \<open>y_training\<close> unchanged: two samples, one label.
\<close>

theorem teach_label_shape_mismatch_half_appended:
  "ActiveLearner_teach prior_ops (NdArray [2] [[3, 4]]) (NdArray [3] [[1, 0, 1]]) False False lrn0 =
     Raised ValueError (lrn0\<lparr>X_training := Some (NdArray [2] [[1, 2], [3, 4]])\<rparr>)"
  by (simp add: ActiveLearner_teach_def add_training_data_def check_X_y_def n_rows_def
      data_vstack_def lrn0_def)

text \<open>
  C7: \<^verbatim>\<open>teach(X, y, only_new=True)\<close> of an ActiveLearner leaves \<open>X_training\<close> and
  \<open>y_training\<close> unchanged, whatever the outcome of the call; on a valid batch (without
  bootstrap) the estimator is fitted on exactly \<open>(X, y)\<close>, not on the buffer.
\<close>

theorem teach_only_new_keeps_buffer:
  "X_training (state_of (ActiveLearner_teach ops X y bootstrap True s)) = X_training s \<and>
   y_training (state_of (ActiveLearner_teach ops X y bootstrap True s)) = y_training s \<and>
   (n_rows X = n_rows y \<longrightarrow>
      estimator (state_of (ActiveLearner_teach ops X y False True s)) =
        state_of (est_fit ops (estimator s) (Some X) (Some y)))"
proof -
  have "ActiveLearner_teach ops X y bootstrap True s = Raised ValueError s \<or>
        ActiveLearner_teach ops X y bootstrap True s = fit_on_new ops X y bootstrap s"
    by (simp add: ActiveLearner_teach_def check_X_y_def)
  then have buf: "X_training (state_of (ActiveLearner_teach ops X y bootstrap True s)) = X_training s \<and>
      y_training (state_of (ActiveLearner_teach ops X y bootstrap True s)) = y_training s"
    using fit_on_new_buffers [of ops X y bootstrap s] by auto
  have "n_rows X = n_rows y \<Longrightarrow>
      ActiveLearner_teach ops X y False True s = fit_on_new ops X y False s"
    by (simp add: ActiveLearner_teach_def check_X_y_def)
  then show ?thesis using buf fit_on_new_plain [of ops X y s] by simp
qed

theorem teach_only_new_keeps_buffer_witness:
  "n_rows (NdArray [2] [[3, 4::real]]) = n_rows (NdArray [2] [[1, 1::int]]) \<and>
   X_training (state_of (ActiveLearner_teach prior_ops (NdArray [2] [[3, 4]])
       (NdArray [2] [[1, 1]]) False True lrn0)) = Some (NdArray [2] [[1, 2]]) \<and>
   y_training (state_of (ActiveLearner_teach prior_ops (NdArray [2] [[3, 4]])
       (NdArray [2] [[1, 1]]) False True lrn0)) = Some (NdArray [2] [[0, 1]]) \<and>
   estimator (state_of (ActiveLearner_teach prior_ops (NdArray [2] [[3, 4]])
       (NdArray [2] [[1, 1]]) False True lrn0)) = [1, 1]"
  using teach_only_new_keeps_buffer [of prior_ops "NdArray [2] [[3, 4]]" "NdArray [2] [[1, 1]]"
      False lrn0]
  by (simp add: n_rows_def lrn0_def prior_ops_def)

text \<open>
  C8: \<^verbatim>\<open>fit(X, y)\<close> of an ActiveLearner validates first: when the row counts of \<open>X\<close>
  and \<open>y\<close> differ it raises \<^verbatim>\<open>ValueError\<close> and the learner, its buffer included, is
  as before; otherwise \<open>X_training\<close> is \<open>X\<close> and \<open>y_training\<close> is \<open>y\<close> after the call,
  whatever the buffer held.
\<close>

theorem ActiveLearner_fit_replaces:
  "(n_rows X = n_rows y \<longrightarrow>
      X_training (state_of (ActiveLearner_fit ops X y bootstrap s)) = Some X \<and>
      y_training (state_of (ActiveLearner_fit ops X y bootstrap s)) = Some y) \<and>
   (n_rows X \<noteq> n_rows y \<longrightarrow> ActiveLearner_fit ops X y bootstrap s = Raised ValueError s)"
  by (simp add: ActiveLearner_fit_def check_X_y_def fit_to_known_buffers)

theorem ActiveLearner_fit_replaces_witness:
  "n_rows (NdArray [2] [[3, 4::real]]) = n_rows (NdArray [] [[1::int]]) \<and>
   X_training (state_of (ActiveLearner_fit prior_ops (NdArray [2] [[3, 4]])
       (NdArray [] [[1]]) False lrn0)) = Some (NdArray [2] [[3, 4]]) \<and>
   y_training (state_of (ActiveLearner_fit prior_ops (NdArray [2] [[3, 4]])
       (NdArray [] [[1]]) False lrn0)) = Some (NdArray [] [[1]]) \<and>
   n_rows (NdArray [2] [[3, 4::real]]) \<noteq> n_rows (NdArray [] [[1::int], [0]]) \<and>
   ActiveLearner_fit prior_ops (NdArray [2] [[3, 4]]) (NdArray [] [[1], [0]]) False lrn0
     = Raised ValueError lrn0"
  using ActiveLearner_fit_replaces [of "NdArray [2] [[3, 4]]" "NdArray [] [[1]]" prior_ops False lrn0]
    ActiveLearner_fit_replaces [of "NdArray [2] [[3, 4]]" "NdArray [] [[1], [0]]" prior_ops False lrn0]
  by (simp add: n_rows_def)

section \<open>Properties of BayesianOptimizer\<close>

text \<open>\<open>argmax\<close> returns the first index that holds the maximum.\<close>

lemma argmax_loop_spec:
  assumes "pre \<noteq> []" "i = length pre" "best_i < i" "best = pre ! best_i"
    "best = Max (set pre)" "\<forall>j<best_i. pre ! j < best"
  shows "argmax_loop vs i best best_i < length (pre @ vs) \<and>
         (pre @ vs) ! argmax_loop vs i best best_i = Max (set (pre @ vs)) \<and>
         (\<forall>j < argmax_loop vs i best best_i. (pre @ vs) ! j < Max (set (pre @ vs)))"
  using assms
proof (induction vs arbitrary: pre i best best_i)
  case Nil
  then show ?case by simp
next
  case (Cons v vs)
  let ?pre = "pre @ [v]"
  show ?case
  proof (cases "best < v")
    case True
    have m: "Max (set ?pre) = v" using True Cons.prems
      by (auto simp add: max_def)
    have lt: "\<forall>j<i. ?pre ! j < v"
    proof (intro allI impI)
      fix j assume "j < i"
      then have "pre ! j \<in> set pre" using Cons.prems by simp
      then have "pre ! j \<le> Max (set pre)" by simp
      then have "pre ! j \<le> best" using Cons.prems(5) by simp
      then show "?pre ! j < v" using True \<open>j < i\<close> Cons.prems by (simp add: nth_append)
    qed
    have "argmax_loop vs (Suc i) v i < length (?pre @ vs) \<and>
         (?pre @ vs) ! argmax_loop vs (Suc i) v i = Max (set (?pre @ vs)) \<and>
         (\<forall>j < argmax_loop vs (Suc i) v i. (?pre @ vs) ! j < Max (set (?pre @ vs)))"
      apply (rule Cons.IH)
      using Cons.prems m lt by (simp_all add: nth_append)
    then show ?thesis using True by simp
  next
    case False
    have m: "Max (set ?pre) = best" using False Cons.prems
      by (auto simp add: max_def)
    have "argmax_loop vs (Suc i) best best_i < length (?pre @ vs) \<and>
         (?pre @ vs) ! argmax_loop vs (Suc i) best best_i = Max (set (?pre @ vs)) \<and>
         (\<forall>j < argmax_loop vs (Suc i) best best_i. (?pre @ vs) ! j < Max (set (?pre @ vs)))"
      apply (rule Cons.IH)
      using Cons.prems m by (simp_all add: nth_append)
    then show ?thesis using False by simp
  qed
qed

lemma argmax_first_max:
  assumes "argmax vs = Inr i"
  shows "i < length vs \<and> vs ! i = Max (set vs) \<and> (\<forall>j<i. vs ! j < Max (set vs))"
proof (cases vs)
  case Nil
  then show ?thesis using assms by (simp add: argmax_def)
next
  case (Cons v rest)
  then have i: "i = argmax_loop rest 1 v 0" using assms by (simp add: argmax_def)
  have "argmax_loop rest 1 v 0 < length ([v] @ rest) \<and>
         ([v] @ rest) ! argmax_loop rest 1 v 0 = Max (set ([v] @ rest)) \<and>
         (\<forall>j < argmax_loop rest 1 v 0. ([v] @ rest) ! j < Max (set ([v] @ rest)))"
    by (rule argmax_loop_spec) simp_all
  then show ?thesis using i Cons by simp
qed

lemma argmax_nonempty: "vs \<noteq> [] \<Longrightarrow> \<exists>i. argmax vs = Inr i"
  by (cases vs) (simp_all add: argmax_def)

lemma argmax_empty: "argmax [] = Inl ValueError"
  by (simp add: argmax_def)

lemma concat_singletons:
  "\<forall>r\<in>set rs. length r = 1 \<Longrightarrow> concat rs = map hd rs"
proof (induction rs)
  case Nil
  then show ?case by simp
next
  case (Cons r rs)
  then obtain v where "r = [v]" by (cases r) auto
  then show ?case using Cons by simp
qed

lemma singleton_row:
  assumes "\<forall>r\<in>set rs. length r = 1" "i < length rs"
  shows "rs ! i = [concat rs ! i]"
proof -
  have "length (rs ! i) = 1" using assms by simp
  then obtain v where v: "rs ! i = [v]" by (cases "rs ! i") auto
  then show ?thesis using assms by (simp add: concat_singletons)
qed

lemma set_max_frame:
  "estimator (state_of (set_max X y s)) = estimator s \<and>
   X_training (state_of (set_max X y s)) = X_training s \<and>
   y_training (state_of (set_max X y s)) = y_training s"
  by (simp add: set_max_def Let_def split: sum.splits bool.splits)

lemma set_max_only_reads_max:
  assumes "y_max s = y_max t" "X_max s = X_max t"
  shows "get_max (state_of (set_max X y s)) = get_max (state_of (set_max X y t)) \<and>
         raised (set_max X y s) = raised (set_max X y t)"
  using assms by (simp add: set_max_def get_max_def Let_def split: sum.splits bool.splits)

lemma set_max_scalar:
  assumes sc: "\<forall>r\<in>set (rws y). length r = 1"
    and n: "n_rows X = n_rows y"
    and ok: "set_max X y s = Returned s'"
  shows "rws y \<noteq> [] \<and>
     (y_max s = MinusInf \<or> (\<exists>w. y_max s = Value [w])) \<and>
     (if y_max s = MinusInf \<or> (\<exists>w. y_max s = Value [w] \<and> w < Max (set (concat (rws y))))
      then y_max s' = Value [Max (set (concat (rws y)))] \<and>
           (\<exists>x. X_max s' = Some x \<and> (x, [Max (set (concat (rws y)))]) \<in> set (zip (rws X) (rws y)))
      else X_max s' = X_max s \<and> y_max s' = y_max s)"
proof -
  let ?vs = "concat (rws y)"
  let ?m = "Max (set ?vs)"
  obtain i where i: "argmax ?vs = Inr i"
    using ok by (cases "argmax ?vs") (simp_all add: set_max_def)
  have len: "length ?vs = length (rws y)" using sc by (simp add: concat_singletons)
  have am: "i < length ?vs" "?vs ! i = ?m" using argmax_first_max [OF i] by simp_all
  then have ne: "rws y \<noteq> []" by auto
  have il: "i < length (rws y)" using am len by simp
  have row: "rws y ! i = [?m]" using singleton_row [OF sc il] am by simp
  have ry: "retrieve_rows y i = Inr [?m]" using il row by (simp add: retrieve_rows_def n_rows_def)
  have rx: "retrieve_rows X i = Inr (rws X ! i)" using il n by (simp add: retrieve_rows_def n_rows_def)
  have mem: "(rws X ! i, [?m]) \<in> set (zip (rws X) (rws y))"
    using il n row by (auto simp add: set_zip n_rows_def)
  obtain b where b: "gt_truth [?m] (y_max s) = Inr b"
    using ok i ry by (cases "gt_truth [?m] (y_max s)") (simp_all add: set_max_def)
  have shape: "y_max s = MinusInf \<or> (\<exists>w. y_max s = Value [w])"
    using b by (cases "([?m], y_max s)" rule: gt_truth.cases) auto
  have bval: "b = (y_max s = MinusInf \<or> (\<exists>w. y_max s = Value [w] \<and> w < ?m))"
    using b shape by auto
  show ?thesis
  proof (cases b)
    case True
    then have "s' = s\<lparr>y_max := Value [?m], X_max := Some (rws X ! i)\<rparr>"
      using ok i ry rx b by (simp add: set_max_def)
    then show ?thesis using ne shape bval True mem by auto
  next
    case False
    then have "s' = s" using ok i ry b by (simp add: set_max_def)
    then show ?thesis using ne shape bval False by auto
  qed
qed

lemma fit_estimator_max:
  "X_max (state_of (fit_estimator ops A b s)) = X_max s \<and>
   y_max (state_of (fit_estimator ops A b s)) = y_max s"
  by (simp add: fit_estimator_def split: outcome.splits)

lemma fit_to_known_max:
  "X_max (state_of (fit_to_known ops b s)) = X_max s \<and>
   y_max (state_of (fit_to_known ops b s)) = y_max s"
  by (simp add: fit_to_known_def fit_estimator_max Let_def split: option.splits sum.splits)

lemma fit_on_new_max:
  "X_max (state_of (fit_on_new ops X y b s)) = X_max s \<and>
   y_max (state_of (fit_on_new ops X y b s)) = y_max s"
  by (simp add: fit_on_new_def fit_estimator_max Let_def split: option.splits sum.splits)

lemma add_training_data_frame:
  "X_max (state_of (add_training_data X y s)) = X_max s \<and>
   y_max (state_of (add_training_data X y s)) = y_max s \<and>
   estimator (state_of (add_training_data X y s)) = estimator s"
  by (simp add: add_training_data_def Let_def split: option.splits sum.splits)

lemma add_training_data_Returned:
  assumes "add_training_data X y s = Returned s1"
  shows "n_rows X = n_rows y \<and>
     (\<exists>Xn yn. X_training s1 = Some Xn \<and> y_training s1 = Some yn \<and>
        rws Xn = (case X_training s of None \<Rightarrow> [] | Some Xt \<Rightarrow> rws Xt) @ rws X \<and>
        rws yn = (case X_training s of None \<Rightarrow> []
                  | Some Xt \<Rightarrow> (case y_training s of None \<Rightarrow> [] | Some yt \<Rightarrow> rws yt)) @ rws y)"
  using assms
  by (auto simp add: add_training_data_def check_X_y_def data_vstack_def Let_def
      split: option.splits sum.splits if_splits)

lemma teach_Returned:
  assumes "BayesianOptimizer_teach ops X y b nw s = Returned s'"
  shows "\<exists>s1 s2. add_training_data X y s = Returned s1 \<and>
      (if \<not> nw then fit_to_known ops b s1 else fit_on_new ops X y b s1) = Returned s2 \<and>
      set_max X y s2 = Returned s'"
  using assms by (auto simp add: BayesianOptimizer_teach_def split: outcome.splits)

lemma fit_policy_max:
  "X_max (state_of (if \<not> nw then fit_to_known ops b s else fit_on_new ops X y b s)) = X_max s \<and>
   y_max (state_of (if \<not> nw then fit_to_known ops b s else fit_on_new ops X y b s)) = y_max s"
  by (simp add: fit_to_known_max fit_on_new_max)

lemma teach_set_max:
  assumes "BayesianOptimizer_teach ops X y b nw s = Returned s'"
  shows "n_rows X = n_rows y \<and>
     (\<exists>t. X_max t = X_max s \<and> y_max t = y_max s \<and> set_max X y t = Returned s')"
proof -
  obtain s1 s2 where a: "add_training_data X y s = Returned s1"
    and f: "(if \<not> nw then fit_to_known ops b s1 else fit_on_new ops X y b s1) = Returned s2"
    and m: "set_max X y s2 = Returned s'"
    using teach_Returned [OF assms] by blast
  have "X_max s1 = X_max s \<and> y_max s1 = y_max s"
    using add_training_data_frame [of X y s] a by simp
  moreover have "X_max s2 = X_max s1 \<and> y_max s2 = y_max s1"
    using fit_policy_max [of nw ops b s1 X y] f by simp
  ultimately show ?thesis using m add_training_data_Returned [OF a] by auto
qed

lemma teach_max_is:
  assumes t: "BayesianOptimizer_teach ops X y b nw s = Returned s'"
    and sc: "\<forall>r\<in>set (rws y). length r = 1"
    and inv: "max_is L P s"
  shows "max_is (L @ concat (rws y)) (P @ zip (rws X) (rws y)) s'"
proof -
  obtain t where n: "n_rows X = n_rows y" and tx: "X_max t = X_max s" and ty: "y_max t = y_max s"
    and m: "set_max X y t = Returned s'"
    using teach_set_max [OF t] by blast
  define vs where "vs = concat (rws y)"
  define m2 where "m2 = Max (set vs)"
  have sm: "rws y \<noteq> []"
    "if y_max t = MinusInf \<or> (\<exists>w. y_max t = Value [w] \<and> w < m2)
      then y_max s' = Value [m2] \<and> (\<exists>x. X_max s' = Some x \<and> (x, [m2]) \<in> set (zip (rws X) (rws y)))
      else X_max s' = X_max t \<and> y_max s' = y_max t"
    using set_max_scalar [OF sc n m] unfolding vs_def m2_def by blast+
  have ne: "vs \<noteq> []" using sm(1) sc unfolding vs_def by (simp add: concat_singletons)
  show ?thesis
  proof (cases "L = []")
    case True
    then have "y_max t = MinusInf" using inv ty by (simp add: max_is_def)
    then have "y_max s' = Value [m2] \<and> (\<exists>x. X_max s' = Some x \<and> (x, [m2]) \<in> set (zip (rws X) (rws y)))"
      using sm(2) by simp
    then show ?thesis using True ne unfolding max_is_def vs_def [symmetric] m2_def [symmetric]
      by (auto simp add: m2_def)
  next
    case False
    define m1 where "m1 = Max (set L)"
    have old: "y_max t = Value [m1]"
      and oldx: "\<exists>x. X_max t = Some x \<and> (x, [m1]) \<in> set P"
      using inv tx ty False by (simp_all add: max_is_def m1_def)
    have mx: "Max (set (L @ vs)) = max m1 m2"
      using False ne by (simp add: Max_Un m1_def m2_def)
    have cond: "(y_max t = MinusInf \<or> (\<exists>w. y_max t = Value [w] \<and> w < m2)) = (m1 < m2)"
      using old by simp
    have lne: "L @ vs \<noteq> []" using False by simp
    show ?thesis
    proof (cases "m1 < m2")
      case True
      then have "y_max s' = Value [m2] \<and>
           (\<exists>x. X_max s' = Some x \<and> (x, [m2]) \<in> set (zip (rws X) (rws y)))"
        using sm(2) cond by simp
      moreover have "Max (set (L @ vs)) = m2" using mx True by (simp add: max.absorb2 less_imp_le)
      ultimately show ?thesis using lne unfolding max_is_def vs_def [symmetric] by auto
    next
      case nlt: False
      then have "X_max s' = X_max t \<and> y_max s' = y_max t"
        using sm(2) cond by simp
      moreover have "Max (set (L @ vs)) = m1" using mx nlt by (simp add: max.absorb1)
      ultimately show ?thesis using lne old oldx unfolding max_is_def vs_def [symmetric] by auto
    qed
  qed
qed

lemma teach_all_max_is:
  assumes "teach_all ops calls s = Returned s'"
    and "\<forall>c\<in>set calls. \<forall>r\<in>set (rws (call_y c)). length r = 1"
    and "max_is L P s"
  shows "max_is (L @ concat (map (\<lambda>c. concat (rws (call_y c))) calls))
                (P @ concat (map (\<lambda>c. zip (rws (call_X c)) (rws (call_y c))) calls)) s'"
  using assms
proof (induction calls arbitrary: s L P)
  case Nil
  then show ?case by simp
next
  case (Cons c calls)
  obtain s1 where s1: "BayesianOptimizer_teach ops (call_X c) (call_y c) (call_bootstrap c)
        (call_only_new c) s = Returned s1"
    and rest: "teach_all ops calls s1 = Returned s'"
    using Cons.prems(1) by (auto split: outcome.splits)
  have sc: "\<forall>r\<in>set (rws (call_y c)). length r = 1" using Cons.prems(2) by simp
  have rest_sc: "\<forall>c\<in>set calls. \<forall>r\<in>set (rws (call_y c)). length r = 1"
    using Cons.prems(2) by simp
  have step: "max_is (L @ concat (rws (call_y c))) (P @ zip (rws (call_X c)) (rws (call_y c))) s1"
    using teach_max_is [OF s1 sc Cons.prems(3)] .
  show ?case using Cons.IH [OF rest rest_sc step] by simp
qed

lemma init_max_is:
  assumes init: "BayesianOptimizer_init ops e Xi yi bi = Inr s0"
    and sc0: "\<forall>yt. yi = Some yt \<longrightarrow> (\<forall>r\<in>set (rws yt). length r = 1)"
  shows "max_is (case yi of None \<Rightarrow> [] | Some yt \<Rightarrow> concat (rws yt))
                (case (Xi, yi) of (Some Xt, Some yt) \<Rightarrow> zip (rws Xt) (rws yt) | _ \<Rightarrow> []) s0"
proof -
  obtain a where a: "ActiveLearner_init ops e Xi yi bi = Inr a"
    using init by (cases "ActiveLearner_init ops e Xi yi bi") (simp_all add: BayesianOptimizer_init_def)
  have buf: "X_training a = Xi \<and> y_training a = yi"
  proof (cases Xi)
    case None
    then have "a = \<lparr>estimator = e, X_training = Xi, y_training = yi\<rparr>"
      using a by (simp add: ActiveLearner_init_def)
    then show ?thesis by simp
  next
    case (Some Xt)
    then have "fit_to_known ops bi \<lparr>estimator = e, X_training = Xi, y_training = yi\<rparr> = Returned a"
      using a by (simp add: ActiveLearner_init_def split: outcome.splits)
    then show ?thesis
      using fit_to_known_buffers [of ops bi "\<lparr>estimator = e, X_training = Xi, y_training = yi\<rparr>"]
      by simp
  qed
  show ?thesis
  proof (cases yi)
    case None
    then have "s0 = ActiveLearner.extend a \<lparr>X_max = None, y_max = MinusInf\<rparr>"
      using init a buf by (simp add: BayesianOptimizer_init_def)
    then show ?thesis using None by (simp add: max_is_def ActiveLearner.defs)
  next
    case (Some yt)
    let ?vs = "concat (rws yt)"
    have sc: "\<forall>r\<in>set (rws yt). length r = 1" using sc0 Some by simp
    obtain i where i: "argmax ?vs = Inr i"
      using init a buf Some by (cases "argmax ?vs") (simp_all add: BayesianOptimizer_init_def)
    obtain Xt where Xt: "Xi = Some Xt"
      using init a buf Some i by (cases Xi) (simp_all add: BayesianOptimizer_init_def)
    obtain x where x: "retrieve_rows Xt i = Inr x"
      using init a buf Some i Xt by (cases "retrieve_rows Xt i") (simp_all add: BayesianOptimizer_init_def)
    obtain v where v: "retrieve_rows yt i = Inr v"
      using init a buf Some i Xt x by (cases "retrieve_rows yt i") (simp_all add: BayesianOptimizer_init_def)
    have s0: "s0 = ActiveLearner.extend a \<lparr>X_max = Some x, y_max = Value v\<rparr>"
      using init a buf Some i Xt x v by (simp add: BayesianOptimizer_init_def)
    have ix: "i < length (rws Xt)" "x = rws Xt ! i"
      using x by (auto simp add: retrieve_rows_def n_rows_def split: if_splits)
    have iy: "i < length (rws yt)" "v = rws yt ! i"
      using v by (auto simp add: retrieve_rows_def n_rows_def split: if_splits)
    have am: "?vs ! i = Max (set ?vs)" "i < length ?vs" using argmax_first_max [OF i] by simp_all
    have vv: "v = [Max (set ?vs)]" using singleton_row [OF sc iy(1)] iy am by simp
    have mem: "(x, v) \<in> set (zip (rws Xt) (rws yt))"
      using ix iy by (auto simp add: set_zip)
    have "?vs \<noteq> []" using am(2) by (cases ?vs) simp_all
    then show ?thesis using s0 Some Xt vv mem by (simp add: max_is_def ActiveLearner.defs)
  qed
qed

text \<open>
  The constructor with initial data returns whenever the first fit does, and sets the
  maximum from the first row that carries the largest initial label.
\<close>

lemma init_with_labels_returns:
  assumes n: "n_rows Xt = n_rows yt" and ne: "rws yt \<noteq> []"
    and sc: "\<forall>r\<in>set (rws yt). length r = 1"
    and fit: "raised (est_fit ops e (Some Xt) (Some yt)) = None"
  shows "\<exists>s1 i. BayesianOptimizer_init ops e (Some Xt) (Some yt) False = Inr s1 \<and>
      i < n_rows Xt \<and> rws yt ! i = [Max (set (concat (rws yt)))] \<and>
      (\<forall>j<i. concat (rws yt) ! j < Max (set (concat (rws yt)))) \<and>
      X_training s1 = Some Xt \<and> y_training s1 = Some yt \<and>
      get_max s1 = (Some (rws Xt ! i), Value [Max (set (concat (rws yt)))])"
proof -
  let ?vs = "concat (rws yt)"
  obtain e1 where e1: "est_fit ops e (Some Xt) (Some yt) = Returned e1"
    using fit by (cases "est_fit ops e (Some Xt) (Some yt)") simp_all
  define a where "a = \<lparr>estimator = e1, X_training = Some Xt, y_training = Some yt\<rparr>"
  have ai: "ActiveLearner_init ops e (Some Xt) (Some yt) False = Inr a"
    using e1 by (simp add: ActiveLearner_init_def fit_to_known_def fit_estimator_def a_def)
  have len: "length ?vs = length (rws yt)" using sc by (simp add: concat_singletons)
  have "length ?vs \<noteq> 0" using ne unfolding len by simp
  then have "?vs \<noteq> []" by (simp del: concat_eq_Nil_conv)
  then obtain i where i: "argmax ?vs = Inr i" using argmax_nonempty by blast
  have am: "i < length ?vs" "?vs ! i = Max (set ?vs)" "\<forall>j<i. ?vs ! j < Max (set ?vs)"
    using argmax_first_max [OF i] by simp_all
  have il: "i < length (rws yt)" using am(1) len by simp
  have row: "rws yt ! i = [Max (set ?vs)]" using singleton_row [OF sc il] am(2) by simp
  have rx: "retrieve_rows Xt i = Inr (rws Xt ! i)"
    using il n by (simp add: retrieve_rows_def n_rows_def)
  have ry: "retrieve_rows yt i = Inr [Max (set ?vs)]"
    using il row by (simp add: retrieve_rows_def n_rows_def)
  have "BayesianOptimizer_init ops e (Some Xt) (Some yt) False =
      Inr (ActiveLearner.extend a \<lparr>X_max = Some (rws Xt ! i), y_max = Value [Max (set ?vs)]\<rparr>)"
    using ai i rx ry by (simp add: BayesianOptimizer_init_def a_def)
  moreover have "get_max (ActiveLearner.extend a
        \<lparr>X_max = Some (rws Xt ! i), y_max = Value [Max (set ?vs)]\<rparr>)
      = (Some (rws Xt ! i), Value [Max (set ?vs)])"
    by (simp add: get_max_def ActiveLearner.defs a_def)
  moreover have "X_training (ActiveLearner.extend a
        \<lparr>X_max = Some (rws Xt ! i), y_max = Value [Max (set ?vs)]\<rparr>) = Some Xt \<and>
      y_training (ActiveLearner.extend a
        \<lparr>X_max = Some (rws Xt ! i), y_max = Value [Max (set ?vs)]\<rparr>) = Some yt"
    by (simp add: ActiveLearner.defs a_def)
  moreover have "i < n_rows Xt" using il n by (simp add: n_rows_def)
  ultimately show ?thesis using row am(3) by blast
qed

text \<open>
  C2: the optimizer starts at "no row, minus infinity" when it is given no initial
  labels; constructed with initial scalar labels (and a first fit that returns) it starts
  at the largest of them and the first row that carries it. After any sequence of
  \<^verbatim>\<open>teach\<close> calls that return, on scalar labels, \<open>y_max\<close> is the maximum of all labels
  seen (initial data and every call) and \<open>X_max\<close> is a sample row that was supplied with
  that label. A single \<^verbatim>\<open>teach\<close> replaces the pair exactly when the largest label of
  its batch is strictly greater than the running maximum, and leaves it alone otherwise.
\<close>

theorem running_max_tracks_maximum:
  assumes init: "BayesianOptimizer_init ops e Xi yi bootstrap_init = Inr s0"
    and run: "teach_all ops calls s0 = Returned s"
    and sc0: "\<forall>yt. yi = Some yt \<longrightarrow> (\<forall>r\<in>set (rws yt). length r = 1)"
    and sc: "\<forall>c\<in>set calls. \<forall>r\<in>set (rws (call_y c)). length r = 1"
  shows "(yi = None \<longrightarrow> get_max s0 = (None, MinusInf)) \<and>
    (let labels = (case yi of None \<Rightarrow> [] | Some yt \<Rightarrow> concat (rws yt)) @
                  concat (map (\<lambda>c. concat (rws (call_y c))) calls);
         pairs = (case (Xi, yi) of (Some Xt, Some yt) \<Rightarrow> zip (rws Xt) (rws yt) | _ \<Rightarrow> []) @
                 concat (map (\<lambda>c. zip (rws (call_X c)) (rws (call_y c))) calls)
     in labels \<noteq> [] \<longrightarrow>
        (\<exists>x. get_max s = (Some x, Value [Max (set labels)]) \<and>
             (x, [Max (set labels)]) \<in> set pairs)) \<and>
    (\<forall>c\<in>set calls. \<forall>t t'.
        BayesianOptimizer_teach ops (call_X c) (call_y c) (call_bootstrap c) (call_only_new c) t
          = Returned t' \<longrightarrow>
        (if y_max t = MinusInf \<or>
            (\<exists>w. y_max t = Value [w] \<and> w < Max (set (concat (rws (call_y c)))))
         then y_max t' = Value [Max (set (concat (rws (call_y c))))] \<and>
              (\<exists>x. X_max t' = Some x \<and>
                 (x, [Max (set (concat (rws (call_y c))))]) \<in> set (zip (rws (call_X c)) (rws (call_y c))))
         else get_max t' = get_max t)) \<and>
    (\<forall>e0 Xt yt. n_rows Xt = n_rows yt \<longrightarrow> rws yt \<noteq> [] \<longrightarrow>
        (\<forall>r\<in>set (rws yt). length r = 1) \<longrightarrow>
        raised (est_fit ops e0 (Some Xt) (Some yt)) = None \<longrightarrow>
        (\<exists>s1 i. BayesianOptimizer_init ops e0 (Some Xt) (Some yt) False = Inr s1 \<and>
           i < n_rows Xt \<and> rws yt ! i = [Max (set (concat (rws yt)))] \<and>
           (\<forall>j<i. concat (rws yt) ! j < Max (set (concat (rws yt)))) \<and>
           X_training s1 = Some Xt \<and> y_training s1 = Some yt \<and>
           get_max s1 = (Some (rws Xt ! i), Value [Max (set (concat (rws yt)))])))"
proof -
  have i0: "max_is (case yi of None \<Rightarrow> [] | Some yt \<Rightarrow> concat (rws yt))
                (case (Xi, yi) of (Some Xt, Some yt) \<Rightarrow> zip (rws Xt) (rws yt) | _ \<Rightarrow> []) s0"
    using init_max_is [OF init sc0] .
  have p1: "yi = None \<longrightarrow> get_max s0 = (None, MinusInf)"
    using i0 by (auto simp add: max_is_def get_max_def)
  define labels where "labels = (case yi of None \<Rightarrow> [] | Some yt \<Rightarrow> concat (rws yt)) @
                  concat (map (\<lambda>c. concat (rws (call_y c))) calls)"
  define pairs where "pairs = (case (Xi, yi) of (Some Xt, Some yt) \<Rightarrow> zip (rws Xt) (rws yt) | _ \<Rightarrow> []) @
                 concat (map (\<lambda>c. zip (rws (call_X c)) (rws (call_y c))) calls)"
  have "max_is labels pairs s"
    using teach_all_max_is [OF run sc i0] unfolding labels_def pairs_def .
  then have "labels \<noteq> [] \<longrightarrow>
        (\<exists>x. get_max s = (Some x, Value [Max (set labels)]) \<and>
             (x, [Max (set labels)]) \<in> set pairs)"
    unfolding max_is_def get_max_def by auto
  then have p2: "let labels = (case yi of None \<Rightarrow> [] | Some yt \<Rightarrow> concat (rws yt)) @
                  concat (map (\<lambda>c. concat (rws (call_y c))) calls);
         pairs = (case (Xi, yi) of (Some Xt, Some yt) \<Rightarrow> zip (rws Xt) (rws yt) | _ \<Rightarrow> []) @
                 concat (map (\<lambda>c. zip (rws (call_X c)) (rws (call_y c))) calls)
     in labels \<noteq> [] \<longrightarrow>
        (\<exists>x. get_max s = (Some x, Value [Max (set labels)]) \<and>
             (x, [Max (set labels)]) \<in> set pairs)"
    unfolding Let_def labels_def pairs_def .
  have p3: "\<forall>c\<in>set calls. \<forall>t t'.
        BayesianOptimizer_teach ops (call_X c) (call_y c) (call_bootstrap c) (call_only_new c) t
          = Returned t' \<longrightarrow>
        (if y_max t = MinusInf \<or>
            (\<exists>w. y_max t = Value [w] \<and> w < Max (set (concat (rws (call_y c)))))
         then y_max t' = Value [Max (set (concat (rws (call_y c))))] \<and>
              (\<exists>x. X_max t' = Some x \<and>
                 (x, [Max (set (concat (rws (call_y c))))]) \<in> set (zip (rws (call_X c)) (rws (call_y c))))
         else get_max t' = get_max t)"
  proof (intro ballI allI impI)
    fix c t t'
    assume c: "c \<in> set calls"
      and t: "BayesianOptimizer_teach ops (call_X c) (call_y c) (call_bootstrap c) (call_only_new c) t
          = Returned t'"
    have scc: "\<forall>r\<in>set (rws (call_y c)). length r = 1" using sc c by simp
    obtain u where n: "n_rows (call_X c) = n_rows (call_y c)"
      and ux: "X_max u = X_max t" and uy: "y_max u = y_max t"
      and m: "set_max (call_X c) (call_y c) u = Returned t'"
      using teach_set_max [OF t] by blast
    show "if y_max t = MinusInf \<or>
            (\<exists>w. y_max t = Value [w] \<and> w < Max (set (concat (rws (call_y c)))))
         then y_max t' = Value [Max (set (concat (rws (call_y c))))] \<and>
              (\<exists>x. X_max t' = Some x \<and>
                 (x, [Max (set (concat (rws (call_y c))))]) \<in> set (zip (rws (call_X c)) (rws (call_y c))))
         else get_max t' = get_max t"
      using set_max_scalar [OF scc n m] ux uy unfolding get_max_def
      by (simp del: set_concat)
  qed
  have p4: "(\<forall>e0 Xt yt. n_rows Xt = n_rows yt \<longrightarrow> rws yt \<noteq> [] \<longrightarrow>
    (\<forall>r\<in>set (rws yt). length r = 1) \<longrightarrow>
    raised (est_fit ops e0 (Some Xt) (Some yt)) = None \<longrightarrow>
    (\<exists>s1 i. BayesianOptimizer_init ops e0 (Some Xt) (Some yt) False = Inr s1 \<and>
       i < n_rows Xt \<and> rws yt ! i = [Max (set (concat (rws yt)))] \<and>
       (\<forall>j<i. concat (rws yt) ! j < Max (set (concat (rws yt)))) \<and>
       X_training s1 = Some Xt \<and> y_training s1 = Some yt \<and>
       get_max s1 = (Some (rws Xt ! i), Value [Max (set (concat (rws yt)))])))"
  proof (intro allI impI)
    fix e0 Xt yt
    assume n: "n_rows Xt = n_rows yt" and ne: "rws yt \<noteq> []"
      and scy: "\<forall>r\<in>set (rws yt). length r = 1"
      and fit: "raised (est_fit ops e0 (Some Xt) (Some yt)) = None"
    show "\<exists>s1 i. BayesianOptimizer_init ops e0 (Some Xt) (Some yt) False = Inr s1 \<and>
           i < n_rows Xt \<and> rws yt ! i = [Max (set (concat (rws yt)))] \<and>
           (\<forall>j<i. concat (rws yt) ! j < Max (set (concat (rws yt)))) \<and>
           X_training s1 = Some Xt \<and> y_training s1 = Some yt \<and>
           get_max s1 = (Some (rws Xt ! i), Value [Max (set (concat (rws yt)))])"
      using init_with_labels_returns [OF n ne scy fit] .
  qed
  show ?thesis using p1 p2 p3 p4 by (intro conjI)
qed

theorem running_max_tracks_maximum_witness:
  "BayesianOptimizer_init prior_ops [] None None False = Inr opt0 \<and>
   teach_all prior_ops calls_3512 opt0 = Returned opt4 \<and>
   get_max opt4 = (Some [11], Value [5]) \<and>
   BayesianOptimizer_init prior_ops [] (Some X_init) (Some y_init) False = Inr opt_init \<and>
   get_max opt_init = (Some [11], Value [5]) \<and>
   teach_all prior_ops calls_14 opt_init = Returned opt_taught \<and>
   get_max opt_taught = (Some [11], Value [5])"
proof -
  have init: "BayesianOptimizer_init prior_ops [] None None False = Inr opt0"
    by (simp add: BayesianOptimizer_init_def ActiveLearner_init_def opt0_def ActiveLearner.defs)
  have run: "teach_all prior_ops calls_3512 opt0 = Returned opt4"
    by (simp add: calls_3512_def opt0_def opt4_def BayesianOptimizer_teach_def
        add_training_data_def check_X_y_def n_rows_def data_vstack_def fit_to_known_def
        fit_estimator_def prior_ops_def set_max_def argmax_def retrieve_rows_def)
  have sc0: "\<forall>yt. (None :: int ndarray option) = Some yt \<longrightarrow> (\<forall>r\<in>set (rws yt). length r = 1)"
    by simp
  have sc: "\<forall>c\<in>set calls_3512. \<forall>r\<in>set (rws (call_y c)). length r = 1"
    by (simp add: calls_3512_def)
  have "\<exists>x. get_max opt4 = (Some x, Value [5]) \<and>
          (x, [5]) \<in> {([10], [3]), ([11], [5]), ([12], [1]), ([13], [2::int])}"
    using running_max_tracks_maximum [OF init run sc0 sc, THEN conjunct2, THEN conjunct1]
    by (simp add: calls_3512_def Let_def)
  then have g4: "get_max opt4 = (Some [11], Value [5])" by auto
  have initd: "BayesianOptimizer_init prior_ops [] (Some X_init) (Some y_init) False = Inr opt_init"
    by (simp add: BayesianOptimizer_init_def ActiveLearner_init_def fit_to_known_def
        fit_estimator_def prior_ops_def X_init_def y_init_def opt_init_def argmax_def
        retrieve_rows_def n_rows_def ActiveLearner.defs)
  have rund: "teach_all prior_ops calls_14 opt_init = Returned opt_taught"
    by (simp add: calls_14_def opt_init_def opt_taught_def X_init_def y_init_def
        BayesianOptimizer_teach_def add_training_data_def check_X_y_def n_rows_def
        data_vstack_def fit_to_known_def fit_estimator_def prior_ops_def set_max_def
        argmax_def retrieve_rows_def)
  have scd0: "\<forall>yt. Some y_init = Some yt \<longrightarrow> (\<forall>r\<in>set (rws yt). length r = 1)"
    by (simp add: y_init_def)
  have scd: "\<forall>c\<in>set calls_14. \<forall>r\<in>set (rws (call_y c)). length r = 1"
    by (simp add: calls_14_def)
  have "\<exists>x. get_max opt_taught = (Some x, Value [5]) \<and>
          (x, [5]) \<in> {([10], [3]), ([11], [5]), ([12], [5]), ([13], [1]), ([14], [4::int])}"
    using running_max_tracks_maximum [OF initd rund scd0 scd, THEN conjunct2, THEN conjunct1]
    by (simp add: calls_14_def X_init_def y_init_def Let_def)
  then have gt: "snd (get_max opt_taught) = Value [5]" by auto
  have gte: "get_max opt_taught = (Some [11], Value [5])"
    by (simp add: get_max_def opt_taught_def)
  have fitd: "raised (est_fit prior_ops [] (Some X_init) (Some y_init)) = None"
    by (simp add: prior_ops_def)
  have nd: "n_rows X_init = n_rows y_init" by (simp add: X_init_def y_init_def n_rows_def)
  have ned: "rws y_init \<noteq> []" by (simp add: y_init_def)
  have scdd: "\<forall>r\<in>set (rws y_init). length r = 1" by (simp add: y_init_def)
  have "\<exists>s1 i. BayesianOptimizer_init prior_ops [] (Some X_init) (Some y_init) False = Inr s1 \<and>
           i < n_rows X_init \<and> rws y_init ! i = [Max (set (concat (rws y_init)))] \<and>
           (\<forall>j<i. concat (rws y_init) ! j < Max (set (concat (rws y_init)))) \<and>
           X_training s1 = Some X_init \<and> y_training s1 = Some y_init \<and>
           get_max s1 = (Some (rws X_init ! i), Value [Max (set (concat (rws y_init)))])"
    using running_max_tracks_maximum [OF init run sc0 sc, THEN conjunct2, THEN conjunct2,
        THEN conjunct2, rule_format, OF nd ned scdd [rule_format] fitd] .
  then obtain i where "get_max opt_init = (Some (rws X_init ! i), Value [Max (set (concat (rws y_init)))])"
    using initd by auto
  then have "snd (get_max opt_init) = Value [Max (set (concat (rws y_init)))]" by simp
  then have "snd (get_max opt_init) = Value [5]" by (simp add: y_init_def)
  moreover have "get_max opt_init = (Some [11], Value [5])"
    by (simp add: get_max_def opt_init_def)
  ultimately show ?thesis using init run g4 initd rund gt gte by simp
qed

lemma teach_fit_raises:
  assumes a: "add_training_data X y s = Returned s1"
    and f: "raised (if \<not> only_new then fit_to_known ops bootstrap s1
                    else fit_on_new ops X y bootstrap s1) = Some err"
  shows "raised (BayesianOptimizer_teach ops X y bootstrap only_new s) = Some err \<and>
     X_training (state_of (BayesianOptimizer_teach ops X y bootstrap only_new s)) = X_training s1 \<and>
     y_training (state_of (BayesianOptimizer_teach ops X y bootstrap only_new s)) = y_training s1 \<and>
     get_max (state_of (BayesianOptimizer_teach ops X y bootstrap only_new s)) = get_max s"
proof -
  define r where "r = (if \<not> only_new then fit_to_known ops bootstrap s1
                    else fit_on_new ops X y bootstrap s1)"
  obtain s2 where r2: "r = Raised err s2" using f unfolding r_def [symmetric] by (cases r) auto
  have t: "BayesianOptimizer_teach ops X y bootstrap only_new s = Raised err s2"
    using a r2 unfolding r_def by (simp add: BayesianOptimizer_teach_def)
  have b: "X_training s2 = X_training s1 \<and> y_training s2 = y_training s1"
    using fit_to_known_buffers [of ops bootstrap s1] fit_on_new_buffers [of ops X y bootstrap s1] r2
    unfolding r_def by (cases only_new) auto
  have m: "X_max s2 = X_max s1 \<and> y_max s2 = y_max s1"
    using fit_policy_max [of only_new ops bootstrap s1 X y] r2 unfolding r_def by simp
  have m1: "X_max s1 = X_max s \<and> y_max s1 = y_max s"
    using add_training_data_frame [of X y s] a by simp
  show ?thesis using t b m m1 by (simp add: get_max_def)
qed

lemma teach_add_raises:
  assumes "raised (add_training_data X y s) = Some err"
  shows "raised (BayesianOptimizer_teach ops X y bootstrap only_new s) = Some err \<and>
     estimator (state_of (BayesianOptimizer_teach ops X y bootstrap only_new s)) = estimator s \<and>
     get_max (state_of (BayesianOptimizer_teach ops X y bootstrap only_new s)) = get_max s"
proof -
  obtain s1 where a: "add_training_data X y s = Raised err s1"
    using assms by (cases "add_training_data X y s") auto
  then have "BayesianOptimizer_teach ops X y bootstrap only_new s = Raised err s1"
    by (simp add: BayesianOptimizer_teach_def)
  then show ?thesis using add_training_data_frame [of X y s] a by (simp add: get_max_def)
qed

lemma teach_returns:
  assumes t: "BayesianOptimizer_teach ops X y bootstrap only_new s = Returned s'"
  shows "(\<exists>Xn yn. X_training s' = Some Xn \<and> y_training s' = Some yn \<and>
         rws Xn = (case X_training s of None \<Rightarrow> [] | Some Xt \<Rightarrow> rws Xt) @ rws X \<and>
         rws yn = (case X_training s of None \<Rightarrow> []
                   | Some Xt \<Rightarrow> (case y_training s of None \<Rightarrow> [] | Some yt \<Rightarrow> rws yt)) @ rws y \<and>
         (\<not> bootstrap \<longrightarrow> estimator s' = state_of (est_fit ops (estimator s)
              (if only_new then Some X else Some Xn) (if only_new then Some y else Some yn)))) \<and>
      get_max s' = get_max (state_of (set_max X y s))"
proof -
  obtain s1 s2 where a: "add_training_data X y s = Returned s1"
    and f: "(if \<not> only_new then fit_to_known ops bootstrap s1
             else fit_on_new ops X y bootstrap s1) = Returned s2"
    and m: "set_max X y s2 = Returned s'"
    using teach_Returned [OF t] by blast
  obtain Xn yn where Xn: "X_training s1 = Some Xn" and yn: "y_training s1 = Some yn"
    and rx: "rws Xn = (case X_training s of None \<Rightarrow> [] | Some Xt \<Rightarrow> rws Xt) @ rws X"
    and ry: "rws yn = (case X_training s of None \<Rightarrow> []
                   | Some Xt \<Rightarrow> (case y_training s of None \<Rightarrow> [] | Some yt \<Rightarrow> rws yt)) @ rws y"
    using add_training_data_Returned [OF a] by blast
  have e1: "estimator s1 = estimator s" using add_training_data_frame [of X y s] a by simp
  have b2: "X_training s2 = X_training s1 \<and> y_training s2 = y_training s1"
    using fit_to_known_buffers [of ops bootstrap s1] fit_on_new_buffers [of ops X y bootstrap s1] f
    by (cases only_new) auto
  have fr: "estimator s' = estimator s2 \<and> X_training s' = X_training s2 \<and>
            y_training s' = y_training s2"
    using set_max_frame [of X y s2] m by simp
  have est: "\<not> bootstrap \<Longrightarrow> estimator s2 = state_of (est_fit ops (estimator s)
              (if only_new then Some X else Some Xn) (if only_new then Some y else Some yn))"
    using f Xn yn e1
    by (cases only_new)
      (auto simp add: fit_to_known_def fit_on_new_def fit_estimator_def split: outcome.splits)
  have m1: "X_max s2 = X_max s \<and> y_max s2 = y_max s"
    using fit_policy_max [of only_new ops bootstrap s1 X y] f add_training_data_frame [of X y s] a
    by simp
  have gm: "get_max s' = get_max (state_of (set_max X y s))"
    using set_max_only_reads_max [of s2 s X y] m1 m by simp
  show ?thesis using Xn yn rx ry b2 fr est gm by auto
qed


text \<open>
  C6: \<^verbatim>\<open>BayesianOptimizer.teach\<close> first appends \<open>(X, y)\<close> to the buffer, whatever
  \<^verbatim>\<open>only_new\<close> is, then fits (on the grown buffer, or on the new batch alone when
  \<^verbatim>\<open>only_new\<close>), then updates the maximum from the old maximum and the new batch only.
  When it returns, the buffers are the old rows followed by the new ones, the estimator
  is the result of that fit, and \<open>(X_max, y_max)\<close> is what \<^verbatim>\<open>_set_max\<close> makes of the
  old pair and the batch. The order shows where a step raises: a fit that raises leaves
  the buffer already grown and the maximum not yet updated; a rejected batch leaves the
  estimator and the maximum untouched.
\<close>

theorem BayesianOptimizer_teach_order:
  "(BayesianOptimizer_teach ops X y bootstrap only_new s = Returned s' \<longrightarrow>
      (\<exists>Xn yn. X_training s' = Some Xn \<and> y_training s' = Some yn \<and>
         rws Xn = (case X_training s of None \<Rightarrow> [] | Some Xt \<Rightarrow> rws Xt) @ rws X \<and>
         rws yn = (case X_training s of None \<Rightarrow> []
                   | Some Xt \<Rightarrow> (case y_training s of None \<Rightarrow> [] | Some yt \<Rightarrow> rws yt)) @ rws y \<and>
         (\<not> bootstrap \<longrightarrow> estimator s' = state_of (est_fit ops (estimator s)
              (if only_new then Some X else Some Xn) (if only_new then Some y else Some yn)))) \<and>
      get_max s' = get_max (state_of (set_max X y s))) \<and>
   (add_training_data X y s = Returned s1 \<longrightarrow>
      raised (if \<not> only_new then fit_to_known ops bootstrap s1
              else fit_on_new ops X y bootstrap s1) = Some err \<longrightarrow>
      raised (BayesianOptimizer_teach ops X y bootstrap only_new s) = Some err \<and>
      X_training (state_of (BayesianOptimizer_teach ops X y bootstrap only_new s)) = X_training s1 \<and>
      y_training (state_of (BayesianOptimizer_teach ops X y bootstrap only_new s)) = y_training s1 \<and>
      get_max (state_of (BayesianOptimizer_teach ops X y bootstrap only_new s)) = get_max s) \<and>
   (raised (add_training_data X y s) = Some err \<longrightarrow>
      raised (BayesianOptimizer_teach ops X y bootstrap only_new s) = Some err \<and>
      estimator (state_of (BayesianOptimizer_teach ops X y bootstrap only_new s)) = estimator s \<and>
      get_max (state_of (BayesianOptimizer_teach ops X y bootstrap only_new s)) = get_max s)"
  using teach_returns [of ops X y bootstrap only_new s s']
    teach_fit_raises [of X y s s1 only_new ops bootstrap err]
    teach_add_raises [of X y s err ops bootstrap only_new]
  by blast

lemmas teach_eval = BayesianOptimizer_teach_def add_training_data_def check_X_y_def n_rows_def
  data_vstack_def fit_to_known_def fit_on_new_def fit_estimator_def set_max_def argmax_def
  retrieve_rows_def


theorem BayesianOptimizer_teach_order_witness:
  "BayesianOptimizer_teach prior_ops (NdArray [1] [[12]]) (NdArray [] [[7]]) False True opt2
     = Returned opt3 \<and>
   get_max opt3 = get_max (state_of (set_max (NdArray [1] [[12]]) (NdArray [] [[7]]) opt2)) \<and>
   BayesianOptimizer_teach two_class_ops (NdArray [1] [[12]]) (NdArray [] [[7]]) False True opt2
     = Raised ValueError (opt2\<lparr>X_training := Some (NdArray [1] [[10], [11], [12]]),
                                y_training := Some (NdArray [] [[3], [5], [7]])\<rparr>) \<and>
   BayesianOptimizer_teach prior_ops (NdArray [1] [[12]]) (NdArray [] [[7], [8]]) False False opt2
     = Raised ValueError opt2"
proof -
  let ?X = "NdArray [1] [[12::real]]"
  let ?y = "NdArray [] [[7::int]]"
  let ?s1 = "opt2\<lparr>X_training := Some (NdArray [1] [[10], [11], [12]]),
                  y_training := Some (NdArray [] [[3], [5], [7]])\<rparr>"
  have ok: "BayesianOptimizer_teach prior_ops ?X ?y False True opt2 = Returned opt3"
    by (simp add: teach_eval prior_ops_def opt2_def opt3_def)
  have add: "add_training_data ?X ?y opt2 = Returned ?s1"
    by (simp add: teach_eval opt2_def)
  have fit: "raised (if \<not> True then fit_to_known two_class_ops False ?s1
                     else fit_on_new two_class_ops ?X ?y False ?s1) = Some ValueError"
    by (simp add: teach_eval two_class_ops_def prior_ops_def opt2_def)
  have bad: "raised (add_training_data ?X (NdArray [] [[7::int], [8]]) opt2) = Some ValueError"
    by (simp add: teach_eval opt2_def)
  have w1: "get_max opt3 = get_max (state_of (set_max ?X ?y opt2))"
    using BayesianOptimizer_teach_order [of prior_ops ?X ?y False True opt2 opt3] ok by blast
  have w2: "raised (BayesianOptimizer_teach two_class_ops ?X ?y False True opt2) = Some ValueError \<and>
      X_training (state_of (BayesianOptimizer_teach two_class_ops ?X ?y False True opt2))
        = X_training ?s1 \<and>
      get_max (state_of (BayesianOptimizer_teach two_class_ops ?X ?y False True opt2)) = get_max opt2"
    using BayesianOptimizer_teach_order [of two_class_ops ?X ?y False True opt2 _ ?s1 ValueError]
      add fit by blast
  have w3: "raised (BayesianOptimizer_teach prior_ops ?X (NdArray [] [[7], [8]]) False False opt2)
        = Some ValueError \<and>
      estimator (state_of (BayesianOptimizer_teach prior_ops ?X (NdArray [] [[7], [8]]) False False opt2))
        = estimator opt2"
    using BayesianOptimizer_teach_order [of prior_ops ?X "NdArray [] [[7], [8]]" False False opt2 _ _ ValueError]
      bad by blast
  have e2: "BayesianOptimizer_teach two_class_ops ?X ?y False True opt2 = Raised ValueError ?s1"
    by (simp add: teach_eval two_class_ops_def prior_ops_def opt2_def)
  have e3: "BayesianOptimizer_teach prior_ops ?X (NdArray [] [[7], [8]]) False False opt2
     = Raised ValueError opt2"
    by (simp add: teach_eval opt2_def)
  show ?thesis using ok w1 w2 w3 e2 e3 by simp
qed

section \<open>Properties of Committee\<close>

lemma set_classes_learners: "learner_list (set_classes ops c) = learner_list c"
  by (simp add: set_classes_def Let_def)

lemma set_classes_union:
  assumes "\<forall>l\<in>set (learner_list c). est_classes ops (estimator l) \<noteq> None"
  shows "classes_are_union ops (set_classes ops c)"
proof -
  define merged where "merged =
    sort (remdups (concat (map (\<lambda>k. case k of None \<Rightarrow> [] | Some cs \<Rightarrow> cs) (known_classes ops c))))"
  have nn: "\<not> list_ex (\<lambda>k. k = None) (known_classes ops c)"
    using assms by (auto simp add: known_classes_def list_ex_iff)
  then have sc: "set_classes ops c = c\<lparr>classes := Some merged, n_classes := length merged\<rparr>"
    by (simp add: set_classes_def Let_def merged_def)
  have d: "distinct merged" "sorted merged" by (simp_all add: merged_def)
  have s: "set merged = (\<Union>l\<in>set (learner_list c).
                    case est_classes ops (estimator l) of None \<Rightarrow> {} | Some k \<Rightarrow> set k)"
    by (auto simp add: merged_def known_classes_def split: option.splits) (metis option.inject)
  have "length merged = card (set merged)" using d by (simp add: distinct_card)
  then show ?thesis unfolding classes_are_union_def using sc d s by simp
qed


text \<open>
  C4: after construction, after a \<^verbatim>\<open>fit\<close> that returns and after a \<^verbatim>\<open>teach\<close> that
  returns, the committee's \<open>classes\<close> is the sorted list, without duplicates, of the
  labels known to some member (every member being fitted), and \<open>n_classes\<close> is the
  number of those labels: members that know \<open>{0, 1}\<close> and \<open>{1, 2}\<close> give \<open>[0, 1, 2]\<close>.
\<close>

theorem Committee_classes_sorted_union:
  "((\<forall>l\<in>set ls. est_classes ops (estimator l) \<noteq> None) \<longrightarrow>
      classes_are_union ops (Committee_init ops ls)) \<and>
   (Committee_fit ops X y c = Returned c1 \<longrightarrow>
      (\<forall>l\<in>set (learner_list c1). est_classes ops (estimator l) \<noteq> None) \<longrightarrow>
      classes_are_union ops c1) \<and>
   (Committee_teach ops X y bootstrap only_new c = Returned c2 \<longrightarrow>
      (\<forall>l\<in>set (learner_list c2). est_classes ops (estimator l) \<noteq> None) \<longrightarrow>
      classes_are_union ops c2)"
proof (intro conjI impI)
  assume "\<forall>l\<in>set ls. est_classes ops (estimator l) \<noteq> None"
  then show "classes_are_union ops (Committee_init ops ls)"
    unfolding Committee_init_def by (intro set_classes_union) simp
next
  assume r: "Committee_fit ops X y c = Returned c1"
    and f: "\<forall>l\<in>set (learner_list c1). est_classes ops (estimator l) \<noteq> None"
  obtain c0 where c0: "c1 = set_classes ops c0"
    using r by (auto simp add: Committee_fit_def split: outcome.splits)
  show "classes_are_union ops c1"
    unfolding c0 using f by (intro set_classes_union) (simp add: c0 set_classes_learners)
next
  assume r: "Committee_teach ops X y bootstrap only_new c = Returned c2"
    and f: "\<forall>l\<in>set (learner_list c2). est_classes ops (estimator l) \<noteq> None"
  obtain c0 where c0: "c2 = set_classes ops c0"
    using r by (auto simp add: Committee_teach_def split: outcome.splits)
  show "classes_are_union ops c2"
    unfolding c0 using f by (intro set_classes_union) (simp add: c0 set_classes_learners)
qed

lemmas committee_eval = Committee_init_def Committee_fit_def Committee_teach_def
  Committee_add_training_data_def Committee_fit_to_known_def Committee_fit_on_new_def
  on_learners_def set_classes_def known_classes_def ActiveLearner_fit_def
  add_training_data_def check_X_y_def n_rows_def data_vstack_def fit_to_known_def
  fit_on_new_def fit_estimator_def

theorem Committee_classes_sorted_union_witness:
  "Committee_init prior_ops [lrnA, lrnB] = committeeAB \<and>
   classes_are_union prior_ops committeeAB \<and>
   (\<exists>c1. Committee_fit prior_ops (NdArray [1] [[5], [6]]) (NdArray [] [[4], [3]]) committeeAB
           = Returned c1 \<and> classes c1 = Some [3, 4] \<and> classes_are_union prior_ops c1) \<and>
   (\<exists>c2. Committee_teach prior_ops (NdArray [1] [[5]]) (NdArray [] [[7]]) False False committeeAB
           = Returned c2 \<and> classes c2 = Some [0, 1, 2, 7] \<and> classes_are_union prior_ops c2)"
proof -
  have i: "Committee_init prior_ops [lrnA, lrnB] = committeeAB"
    by (simp add: committee_eval prior_ops_def lrnA_def lrnB_def committeeAB_def)
  have f0: "\<forall>l\<in>set [lrnA, lrnB]. est_classes prior_ops (estimator l) \<noteq> None"
    by (simp add: prior_ops_def lrnA_def lrnB_def)
  have w0: "classes_are_union prior_ops committeeAB"
    using Committee_classes_sorted_union [where ls = "[lrnA, lrnB]" and ops = prior_ops] f0 i
    by simp
  obtain c1 where c1: "Committee_fit prior_ops (NdArray [1] [[5], [6]]) (NdArray [] [[4], [3]])
      committeeAB = Returned c1" and k1: "classes c1 = Some [3, 4]"
    and f1: "\<forall>l\<in>set (learner_list c1). est_classes prior_ops (estimator l) \<noteq> None"
    by (simp add: committee_eval prior_ops_def lrnA_def lrnB_def committeeAB_def)
  have w1: "classes_are_union prior_ops c1"
    using Committee_classes_sorted_union [where ops = prior_ops and X = "NdArray [1] [[5], [6]]"
        and y = "NdArray [] [[4], [3]]" and c = committeeAB and ?c1.0 = c1] c1 f1 by blast
  obtain c2 where c2: "Committee_teach prior_ops (NdArray [1] [[5]]) (NdArray [] [[7]]) False False
      committeeAB = Returned c2" and k2: "classes c2 = Some [0, 1, 2, 7]"
    and f2: "\<forall>l\<in>set (learner_list c2). est_classes prior_ops (estimator l) \<noteq> None"
    by (simp add: committee_eval prior_ops_def lrnA_def lrnB_def committeeAB_def)
  have w2: "classes_are_union prior_ops c2"
    using Committee_classes_sorted_union [where ops = prior_ops and X = "NdArray [1] [[5]]"
        and y = "NdArray [] [[7]]" and bootstrap = False and only_new = False
        and c = committeeAB and ?c2.0 = c2] c2 f2 by blast
  show ?thesis using i w0 c1 k1 w1 c2 k2 w2 by blast
qed

section \<open>Properties of the votes and the consensus\<close>

text \<open>
  A loop that assigns one column (or slab) per learner fills position \<open>j0 + k\<close> of every
  row from learner \<open>k\<close> and leaves the other positions alone; it returns when every
  learner's source is accepted and raises when one is not.
\<close>

lemma enumerate_loop_fill:
  assumes step_eq: "\<forall>acc j l. length acc = n \<longrightarrow>
      step acc j l = (case g l of Inl e \<Rightarrow> Inl e
                      | Inr v \<Rightarrow> Inr (map2 (\<lambda>row x. row[j := x]) acc v))"
    and glen: "\<forall>l v. g l = Inr v \<longrightarrow> length v = n"
  shows "length P = n \<Longrightarrow> enumerate_loop step P j0 ls = Inr V \<Longrightarrow>
     length V = n \<and>
     (\<forall>k<length ls. \<exists>v. g (ls ! k) = Inr v \<and>
          (\<forall>i<n. j0 + k < length (P ! i) \<longrightarrow> V ! i ! (j0 + k) = v ! i)) \<and>
     (\<forall>i<n. length (V ! i) = length (P ! i) \<and>
          (\<forall>j. j < j0 \<or> j0 + length ls \<le> j \<longrightarrow> V ! i ! j = P ! i ! j))"
proof (induction ls arbitrary: P j0)
  case Nil
  then show ?case by simp
next
  case (Cons l ls)
  obtain v where v: "g l = Inr v"
    using Cons.prems step_eq [rule_format, of P j0 l] by (cases "g l") simp_all
  define P1 where "P1 = map2 (\<lambda>row x. row[j0 := x]) P v"
  have s1: "step P j0 l = Inr P1" using step_eq [rule_format, of P j0 l] Cons.prems(1) v by (simp add: P1_def)
  have lv: "length v = n" using glen [rule_format, OF v] .
  have l1: "length P1 = n" using lv Cons.prems(1) by (simp add: P1_def)
  have rest: "enumerate_loop step P1 (Suc j0) ls = Inr V" using Cons.prems(2) s1 by simp
  note IH = Cons.IH [OF l1 rest]
  have P1row: "\<And>i. i < n \<Longrightarrow> P1 ! i = (P ! i)[j0 := v ! i]"
    using lv Cons.prems(1) by (simp add: P1_def)
  have len: "\<forall>i<n. length (V ! i) = length (P ! i)" using IH P1row by simp
  have keep: "\<forall>i<n. \<forall>j. j < j0 \<or> j0 + length (l # ls) \<le> j \<longrightarrow> V ! i ! j = P ! i ! j"
  proof (intro allI impI)
    fix i j assume i: "i < n" and j: "j < j0 \<or> j0 + length (l # ls) \<le> j"
    then have "V ! i ! j = P1 ! i ! j" using IH by auto
    also have "\<dots> = P ! i ! j" using P1row [OF i] j by auto
    finally show "V ! i ! j = P ! i ! j" .
  qed
  have cols: "\<forall>k<length (l # ls). \<exists>w. g ((l # ls) ! k) = Inr w \<and>
          (\<forall>i<n. j0 + k < length (P ! i) \<longrightarrow> V ! i ! (j0 + k) = w ! i)"
  proof (intro allI impI)
    fix k assume k: "k < length (l # ls)"
    show "\<exists>w. g ((l # ls) ! k) = Inr w \<and>
          (\<forall>i<n. j0 + k < length (P ! i) \<longrightarrow> V ! i ! (j0 + k) = w ! i)"
    proof (cases k)
      case 0
      have "\<forall>i<n. j0 < length (P ! i) \<longrightarrow> V ! i ! j0 = v ! i"
      proof (intro allI impI)
        fix i assume i: "i < n" and b: "j0 < length (P ! i)"
        have "V ! i ! j0 = P1 ! i ! j0" using IH i by auto
        then show "V ! i ! j0 = v ! i" using P1row [OF i] b by simp
      qed
      then show ?thesis using 0 v by auto
    next
      case (Suc k')
      then have k': "k' < length ls" using k by simp
      then obtain w where w: "g (ls ! k') = Inr w"
        and wv: "\<forall>i<n. Suc j0 + k' < length (P1 ! i) \<longrightarrow> V ! i ! (Suc j0 + k') = w ! i"
        using IH by blast
      have "\<forall>i<n. j0 + k < length (P ! i) \<longrightarrow> V ! i ! (j0 + k) = w ! i"
        using wv P1row Suc by simp
      then show ?thesis using w Suc by auto
    qed
  qed
  show ?case using IH cols len keep by blast
qed

lemma enumerate_loop_total:
  assumes step_eq: "\<forall>acc j l. length acc = n \<longrightarrow>
      step acc j l = (case g l of Inl e \<Rightarrow> Inl e
                      | Inr v \<Rightarrow> Inr (map2 (\<lambda>row x. row[j := x]) acc v))"
    and glen: "\<forall>l v. g l = Inr v \<longrightarrow> length v = n"
  shows "length P = n \<Longrightarrow> \<forall>l\<in>set ls. \<exists>v. g l = Inr v \<Longrightarrow>
     \<exists>V. enumerate_loop step P j0 ls = Inr V"
proof (induction ls arbitrary: P j0)
  case Nil
  then show ?case by simp
next
  case (Cons l ls)
  obtain v where v: "g l = Inr v" using Cons.prems(2) by auto
  define P1 where "P1 = map2 (\<lambda>row x. row[j0 := x]) P v"
  have s1: "step P j0 l = Inr P1" using step_eq [rule_format, of P j0 l] Cons.prems(1) v by (simp add: P1_def)
  have l1: "length P1 = n" using glen [rule_format, OF v] Cons.prems(1) by (simp add: P1_def)
  have "\<exists>V. enumerate_loop step P1 (Suc j0) ls = Inr V"
    using Cons.IH [OF l1] Cons.prems(2) by simp
  then show ?case using s1 by simp
qed

lemma enumerate_loop_raises:
  assumes step_eq: "\<forall>acc j l. length acc = n \<longrightarrow>
      step acc j l = (case g l of Inl e \<Rightarrow> Inl e
                      | Inr v \<Rightarrow> Inr (map2 (\<lambda>row x. row[j := x]) acc v))"
    and glen: "\<forall>l v. g l = Inr v \<longrightarrow> length v = n"
  shows "length P = n \<Longrightarrow> \<exists>l\<in>set ls. \<exists>e. g l = Inl e \<Longrightarrow>
     \<exists>e. enumerate_loop step P j0 ls = Inl e"
proof (induction ls arbitrary: P j0)
  case Nil
  then show ?case by simp
next
  case (Cons l ls)
  show ?case
  proof (cases "g l")
    case (Inl e)
    then show ?thesis using step_eq [rule_format, of P j0 l] Cons.prems(1) by simp
  next
    case (Inr v)
    define P1 where "P1 = map2 (\<lambda>row x. row[j0 := x]) P v"
    have s1: "step P j0 l = Inr P1" using step_eq [rule_format, of P j0 l] Cons.prems(1) Inr by (simp add: P1_def)
    have l1: "length P1 = n" using glen [rule_format, OF Inr] Cons.prems(1) by (simp add: P1_def)
    have "\<exists>l\<in>set ls. \<exists>e. g l = Inl e" using Cons.prems(2) Inr by auto
    then have "\<exists>e. enumerate_loop step P1 (Suc j0) ls = Inl e" using Cons.IH [OF l1] by simp
    then show ?thesis using s1 by simp
  qed
qed

lemma broadcast_to_length: "broadcast_to n v = Inr w \<Longrightarrow> length w = n"
  by (auto simp add: broadcast_to_def split: if_splits list.splits)

lemma broadcast_to_same: "length v = n \<Longrightarrow> broadcast_to n v = Inr v"
  by (simp add: broadcast_to_def)

lemma broadcast_to_nth:
  "broadcast_to n v = Inr w \<Longrightarrow> i < n \<Longrightarrow> w ! i = (if length v = n then v ! i else v ! 0)"
  by (auto simp add: broadcast_to_def split: if_splits list.splits)

lemma broadcast_each_same:
  "\<forall>r\<in>set V. length r = c \<Longrightarrow> broadcast_each c V = Inr V"
  by (induction V) (simp_all add: broadcast_to_same)

lemma broadcast_to_2d_same:
  "length V = n \<Longrightarrow> \<forall>r\<in>set V. length r = c \<Longrightarrow> broadcast_to_2d n c V = Inr V"
  by (simp add: broadcast_to_2d_def broadcast_each_same broadcast_to_same)

lemma broadcast_each_shape:
  "broadcast_each c V = Inr W \<Longrightarrow> length W = length V \<and> (\<forall>r\<in>set W. length r = c)"
proof (induction V arbitrary: W)
  case Nil
  then show ?case by simp
next
  case (Cons r rs)
  then show ?case
    by (auto split: sum.splits dest: broadcast_to_length)
qed

lemma broadcast_to_2d_shape:
  assumes "broadcast_to_2d n c V = Inr W"
  shows "length W = n \<and> (\<forall>r\<in>set W. length r = c)"
proof -
  obtain V1 where V1: "broadcast_each c V = Inr V1" and W: "broadcast_to n V1 = Inr W"
    using assms by (auto simp add: broadcast_to_2d_def split: sum.splits)
  have s: "\<forall>r\<in>set V1. length r = c" using broadcast_each_shape [OF V1] by simp
  have "set W \<subseteq> set V1"
    using W by (auto simp add: broadcast_to_def split: if_splits list.splits)
  then show ?thesis using s broadcast_to_length [OF W] by auto
qed

lemma scatter_row_length: "length (scatter_row known all_labels row) = length all_labels"
  by (simp add: scatter_row_def)

lemma scatter_row_unknown:
  assumes "k < length all_labels" "length row = length known" "all_labels ! k \<notin> set known"
  shows "scatter_row known all_labels row ! k = 0"
proof -
  have "map_of (zip known row) (all_labels ! k) = None"
    using assms(2,3) by (simp add: map_of_zip_is_None)
  then show ?thesis using assms(1) by (simp add: scatter_row_def)
qed

lemma scatter_row_known:
  assumes "k < length all_labels" "length row = length known" "distinct known"
    "m < length known" "all_labels ! k = known ! m"
  shows "scatter_row known all_labels row ! k = row ! m"
proof -
  have "map_of (zip known row) (known ! m) = Some (row ! m)"
    using assms(2,3,4) by (simp add: map_of_zip_nth)
  then show ?thesis using assms(1,5) by (simp add: scatter_row_def)
qed

lemma check_class_labels_fitted:
  assumes "check_class_labels (known_classes ops c) = Inr b"
  shows "\<forall>l\<in>set (learner_list c). \<exists>known. est_classes ops (estimator l) = Some known"
proof -
  have "None \<notin> set (known_classes ops c)"
    using assms by (auto simp add: check_class_labels_def list_ex_iff split: if_splits)
  then show ?thesis unfolding known_classes_def by force
qed


text \<open>
  C3: when the members know different label sets, \<^verbatim>\<open>vote_proba\<close> returns, for each
  sample and member, the member's probabilities scattered into the committee's classes:
  the entry of a class the member does not know is exactly \<open>0\<close>, the entry of a class it
  knows is the probability it predicted for that class, at the position of the class in
  \<open>classes\<close>, and nothing is rescaled (a member that knows \<open>{0, 1}\<close> of \<open>[0, 1, 2]\<close> and
  predicts \<open>[0.3, 0.7]\<close> gives \<open>[0.3, 0.7, 0]\<close>).
\<close>

theorem vote_proba_scatters:
  fixes ops :: "('e, 'x, 'y) estimator_ops" and c :: "('e, 'x, 'y) Committee"
  assumes diff: "check_class_labels (known_classes ops c) = Inr False"
    and cls: "classes c = Some all_labels"
    and ncls: "n_classes c = length all_labels"
    and shape: "\<forall>l\<in>set (learner_list c). \<forall>known. est_classes ops (estimator l) = Some known \<longrightarrow>
        distinct known \<and> length (est_predict_proba ops (estimator l) X) = n_rows X \<and>
        (\<forall>row\<in>set (est_predict_proba ops (estimator l) X). length row = length known)"
  shows "\<exists>T. Committee_vote_proba ops X c = Inr T \<and> length T = n_rows X \<and>
     (\<forall>i<n_rows X. length (T ! i) = length (learner_list c) \<and>
        (\<forall>j<length (learner_list c). \<exists>known.
            est_classes ops (estimator (learner_list c ! j)) = Some known \<and>
            length (T ! i ! j) = length all_labels \<and>
            (\<forall>k<length all_labels.
               (all_labels ! k \<notin> set known \<longrightarrow> T ! i ! j ! k = 0) \<and>
               (\<forall>m<length known. all_labels ! k = known ! m \<longrightarrow>
                  T ! i ! j ! k = est_predict_proba ops (estimator (learner_list c ! j)) X ! i ! m))))"
proof -
  define n where "n = n_rows X"
  define L where "L = length (learner_list c)"
  define P where "P = replicate n (replicate L (replicate (n_classes c) (0::real)))"
  define g :: "('e, 'x, 'y) ActiveLearner \<Rightarrow> error + real list list"
    where "g = (\<lambda>l. case est_classes ops (estimator l) of
        None \<Rightarrow> Inl AttributeError
      | Some known \<Rightarrow> broadcast_to_2d n (n_classes c)
          (check_class_proba (est_predict_proba ops (estimator l) X) known all_labels))"
  define step :: "real list list list \<Rightarrow> nat \<Rightarrow> ('e, 'x, 'y) ActiveLearner \<Rightarrow>
      error + real list list list"
    where "step = (\<lambda>proba learner_idx learner.
               case est_classes ops (estimator learner) of
                 None \<Rightarrow> Inl AttributeError
               | Some known_labels \<Rightarrow>
                   (case classes c of
                      None \<Rightarrow> Inl TypeError
                    | Some all_labels \<Rightarrow>
                        assign_slab (n_classes c) proba learner_idx
                          (check_class_proba (est_predict_proba ops (estimator learner) X)
                             known_labels all_labels)))"
  have vp: "Committee_vote_proba ops X c = enumerate_loop step P 0 (learner_list c)"
    using diff by (simp add: Committee_vote_proba_def Let_def step_def P_def n_def L_def)
  have step_eq: "\<forall>acc j l. length acc = n \<longrightarrow>
      step acc j l = (case g l of Inl e \<Rightarrow> Inl e
                      | Inr v \<Rightarrow> Inr (map2 (\<lambda>row x. row[j := x]) acc v))"
    by (simp add: step_def g_def cls assign_slab_def split: option.splits sum.splits)
  have glen: "\<forall>l v. g l = Inr v \<longrightarrow> length v = n"
    by (auto simp add: g_def split: option.splits dest: broadcast_to_2d_shape)
  have fitted: "\<forall>l\<in>set (learner_list c). \<exists>known. est_classes ops (estimator l) = Some known"
    using check_class_labels_fitted [OF diff] .
  have gval: "\<And>l known. l \<in> set (learner_list c) \<Longrightarrow> est_classes ops (estimator l) = Some known \<Longrightarrow>
      g l = Inr (check_class_proba (est_predict_proba ops (estimator l) X) known all_labels)"
  proof -
    fix l known assume l: "l \<in> set (learner_list c)" and k: "est_classes ops (estimator l) = Some known"
    have "length (est_predict_proba ops (estimator l) X) = n" using shape l k n_def by blast
    then have "broadcast_to_2d n (n_classes c)
          (check_class_proba (est_predict_proba ops (estimator l) X) known all_labels)
        = Inr (check_class_proba (est_predict_proba ops (estimator l) X) known all_labels)"
      by (intro broadcast_to_2d_same) (auto simp add: check_class_proba_def scatter_row_length ncls)
    then show "g l = Inr (check_class_proba (est_predict_proba ops (estimator l) X) known all_labels)"
      using k by (simp add: g_def)
  qed
  have Plen: "length P = n" by (simp add: P_def)
  have "\<forall>l\<in>set (learner_list c). \<exists>v. g l = Inr v" using fitted gval by blast
  then obtain T where T: "enumerate_loop step P 0 (learner_list c) = Inr T"
    using enumerate_loop_total [OF step_eq glen Plen] by blast
  note fill = enumerate_loop_fill [OF step_eq glen Plen T]
  have Prow: "\<And>i. i < n \<Longrightarrow> length (P ! i) = L" by (simp add: P_def)
  have main: "\<forall>i<n. length (T ! i) = L \<and>
        (\<forall>j<L. \<exists>known.
            est_classes ops (estimator (learner_list c ! j)) = Some known \<and>
            length (T ! i ! j) = length all_labels \<and>
            (\<forall>k<length all_labels.
               (all_labels ! k \<notin> set known \<longrightarrow> T ! i ! j ! k = 0) \<and>
               (\<forall>m<length known. all_labels ! k = known ! m \<longrightarrow>
                  T ! i ! j ! k = est_predict_proba ops (estimator (learner_list c ! j)) X ! i ! m)))"
  proof (intro allI impI conjI)
    fix i assume i: "i < n"
    show "length (T ! i) = L" using fill i Prow by simp
    fix j assume j: "j < L"
    define l where "l = learner_list c ! j"
    have lin: "l \<in> set (learner_list c)" using j by (simp add: l_def L_def)
    obtain known where known: "est_classes ops (estimator l) = Some known" using fitted lin by blast
    define pp where "pp = est_predict_proba ops (estimator l) X"
    have sh: "distinct known" "length pp = n" "\<forall>row\<in>set pp. length row = length known"
      using shape lin known by (auto simp add: pp_def n_def)
    obtain v where v: "g l = Inr v" and vv: "\<forall>i<n. 0 + j < length (P ! i) \<longrightarrow> T ! i ! (0 + j) = v ! i"
      using fill j unfolding L_def l_def by blast
    have veq: "v = check_class_proba pp known all_labels" using gval [OF lin known] v by (simp add: pp_def)
    have Tij: "T ! i ! j = scatter_row known all_labels (pp ! i)"
      using vv i j Prow veq sh(2) by (simp add: check_class_proba_def)
    have rowlen: "length (pp ! i) = length known" using sh i by simp
    have "length (T ! i ! j) = length all_labels \<and>
            (\<forall>k<length all_labels.
               (all_labels ! k \<notin> set known \<longrightarrow> T ! i ! j ! k = 0) \<and>
               (\<forall>m<length known. all_labels ! k = known ! m \<longrightarrow> T ! i ! j ! k = pp ! i ! m))"
      unfolding Tij
      using scatter_row_length [of known all_labels "pp ! i"]
        scatter_row_unknown [of _ all_labels "pp ! i" known]
        scatter_row_known [of _ all_labels "pp ! i" known] rowlen sh(1)
      by blast
    then show "\<exists>known.
            est_classes ops (estimator (learner_list c ! j)) = Some known \<and>
            length (T ! i ! j) = length all_labels \<and>
            (\<forall>k<length all_labels.
               (all_labels ! k \<notin> set known \<longrightarrow> T ! i ! j ! k = 0) \<and>
               (\<forall>m<length known. all_labels ! k = known ! m \<longrightarrow>
                  T ! i ! j ! k = est_predict_proba ops (estimator (learner_list c ! j)) X ! i ! m))"
      using known unfolding l_def pp_def by blast
  qed
  have "length T = n" using fill by simp
  then show ?thesis using vp T main unfolding n_def L_def by auto
qed

lemmas vote_proba_eval = Committee_vote_proba_def check_class_labels_def known_classes_def
  assign_slab_def broadcast_to_2d_def broadcast_to_def check_class_proba_def scatter_row_def
  n_rows_def


theorem vote_proba_scatters_witness:
  "check_class_labels (known_classes prior_ops committeePQ) = Inr False \<and>
   Committee_vote_proba prior_ops (NdArray [1] [[5]]) committeePQ
     = Inr [[[3 / 10, 7 / 10, 0], [0, 1 / 4, 3 / 4]]] \<and>
   (\<exists>T. Committee_vote_proba prior_ops (NdArray [1] [[5]]) committeePQ = Inr T \<and>
        T ! 0 ! 0 ! 2 = 0 \<and> T ! 0 ! 0 ! 1 = 7 / 10)"
proof -
  let ?X = "NdArray [1] [[5::real]]"
  have "(0::int) \<notin> {1, 2}" by simp
  then have "{0, 1} \<noteq> {1, 2::int}" by (metis insertI1)
  then have ne: "({0, 1} = {1, 2::int}) = False" by simp
  have diff: "check_class_labels (known_classes prior_ops committeePQ) = Inr False"
    by (simp add: vote_proba_eval prior_ops_def committeePQ_def lrnP_def lrnQ_def ne)
  have cls: "classes committeePQ = Some [0, 1, 2]" by (simp add: committeePQ_def)
  have ncls: "n_classes committeePQ = length [0, 1, 2::int]" by (simp add: committeePQ_def)
  have shape: "\<forall>l\<in>set (learner_list committeePQ). \<forall>known.
        est_classes prior_ops (estimator l) = Some known \<longrightarrow>
        distinct known \<and> length (est_predict_proba prior_ops (estimator l) ?X) = n_rows ?X \<and>
        (\<forall>row\<in>set (est_predict_proba prior_ops (estimator l) ?X). length row = length known)"
    by (auto simp add: prior_ops_def committeePQ_def lrnP_def lrnQ_def n_rows_def)
  have ev: "Committee_vote_proba prior_ops ?X committeePQ
     = Inr [[[3 / 10, 7 / 10, 0], [0, 1 / 4, 3 / 4]]]"
    by (simp add: vote_proba_eval prior_ops_def committeePQ_def lrnP_def lrnQ_def ne)
  obtain T where T: "Committee_vote_proba prior_ops ?X committeePQ = Inr T"
    and rows: "\<forall>i<n_rows ?X. length (T ! i) = length (learner_list committeePQ) \<and>
        (\<forall>j<length (learner_list committeePQ). \<exists>known.
            est_classes prior_ops (estimator (learner_list committeePQ ! j)) = Some known \<and>
            length (T ! i ! j) = length [0, 1, 2::int] \<and>
            (\<forall>k<length [0, 1, 2::int].
               ([0, 1, 2] ! k \<notin> set known \<longrightarrow> T ! i ! j ! k = 0) \<and>
               (\<forall>m<length known. [0, 1, 2] ! k = known ! m \<longrightarrow>
                  T ! i ! j ! k =
                    est_predict_proba prior_ops (estimator (learner_list committeePQ ! j)) ?X ! i ! m)))"
    using vote_proba_scatters [OF diff cls ncls shape] by blast
  have "T ! 0 ! 0 ! 2 = 0 \<and> T ! 0 ! 0 ! 1 = 7 / 10" using T ev by simp
  then show ?thesis using diff ev T by blast
qed












lemma cast_all_spec:
  "cast_all f ls = Inr vs \<Longrightarrow> length vs = length ls \<and> (\<forall>i<length ls. f (ls ! i) = Some (vs ! i))"
proof (induction ls arbitrary: vs)
  case Nil
  then show ?case by simp
next
  case (Cons l ls)
  then show ?case
    by (auto simp add: nth_Cons split: option.splits sum.splits nat.splits)
qed

lemma cast_all_None:
  "\<exists>l\<in>set ls. f l = None \<Longrightarrow> cast_all f ls = Inl ValueError"
proof (induction ls)
  case Nil
  then show ?case by simp
next
  case (Cons l ls)
  show ?case
  proof (cases "f l")
    case None
    then show ?thesis by simp
  next
    case (Some v)
    then have "\<exists>l\<in>set ls. f l = None" using Cons.prems by auto
    then show ?thesis using Cons.IH Some by simp
  qed
qed

lemma column_loop:
  fixes pr :: "'l \<Rightarrow> error + 'a list"
  assumes run: "enumerate_loop
        (\<lambda>prediction learner_idx learner.
           case pr learner of
             Inl e \<Rightarrow> Inl e
           | Inr col \<Rightarrow> assign_column prediction learner_idx col)
        (replicate n (replicate (length ls) z)) 0 ls = Inr V"
  shows "length V = n \<and>
     (\<forall>i<n. length (V ! i) = length ls \<and>
        (\<forall>j<length ls. \<exists>col. pr (ls ! j) = Inr col \<and> (length col = n \<or> length col = 1) \<and>
            V ! i ! j = (if length col = n then col ! i else col ! 0)))"
proof -
  define P where "P = replicate n (replicate (length ls) z)"
  define g where "g = (\<lambda>l. case pr l of Inl e \<Rightarrow> Inl e | Inr col \<Rightarrow> broadcast_to n col)"
  define step where "step = (\<lambda>prediction learner_idx learner.
           case pr learner of
             Inl e \<Rightarrow> Inl e
           | Inr col \<Rightarrow> assign_column prediction learner_idx col)"
  have Plen: "length P = n" by (simp add: P_def)
  have step_eq: "\<forall>acc j l. length acc = n \<longrightarrow>
          step acc j l = (case g l of Inl e \<Rightarrow> Inl e
                          | Inr v \<Rightarrow> Inr (map2 (\<lambda>row x. row[j := x]) acc v))"
    by (simp add: step_def g_def assign_column_def split: sum.splits)
  have glen: "\<forall>l v. g l = Inr v \<longrightarrow> length v = n"
    by (auto simp add: g_def split: sum.splits dest: broadcast_to_length)
  have r: "enumerate_loop step P 0 ls = Inr V" using run by (simp add: step_def P_def)
  note fill = enumerate_loop_fill [OF step_eq glen Plen r]
  have "\<forall>i<n. length (V ! i) = length ls \<and>
        (\<forall>j<length ls. \<exists>col. pr (ls ! j) = Inr col \<and> (length col = n \<or> length col = 1) \<and>
            V ! i ! j = (if length col = n then col ! i else col ! 0))"
  proof (intro allI impI conjI)
    fix i assume i: "i < n"
    show "length (V ! i) = length ls" using fill i by (simp add: P_def)
    fix j assume j: "j < length ls"
    obtain v where v: "g (ls ! j) = Inr v" and vi: "V ! i ! j = v ! i"
      using fill i j by (auto simp add: P_def)
    obtain col where col: "pr (ls ! j) = Inr col" and b: "broadcast_to n col = Inr v"
      using v by (auto simp add: g_def split: sum.splits)
    have "length col = n \<or> length col = 1"
      using b by (auto simp add: broadcast_to_def split: if_splits list.splits)
    then show "\<exists>col. pr (ls ! j) = Inr col \<and> (length col = n \<or> length col = 1) \<and>
            V ! i ! j = (if length col = n then col ! i else col ! 0)"
      using col vi broadcast_to_nth [OF b i] by auto
  qed
  then show ?thesis using fill by simp
qed

lemma column_loop_raises:
  fixes pr :: "'l \<Rightarrow> error + 'a list"
  assumes "\<exists>l\<in>set ls. \<exists>e. pr l = Inl e"
  shows "\<exists>e. enumerate_loop
        (\<lambda>prediction learner_idx learner.
           case pr learner of
             Inl e \<Rightarrow> Inl e
           | Inr col \<Rightarrow> assign_column prediction learner_idx col)
        (replicate n (replicate (length ls) z)) 0 ls = Inl e"
proof -
  define P where "P = replicate n (replicate (length ls) z)"
  define g where "g = (\<lambda>l. case pr l of Inl e \<Rightarrow> Inl e | Inr col \<Rightarrow> broadcast_to n col)"
  define step where "step = (\<lambda>prediction learner_idx learner.
           case pr learner of
             Inl e \<Rightarrow> Inl e
           | Inr col \<Rightarrow> assign_column prediction learner_idx col)"
  have Plen: "length P = n" by (simp add: P_def)
  have step_eq: "\<forall>acc j l. length acc = n \<longrightarrow>
          step acc j l = (case g l of Inl e \<Rightarrow> Inl e
                          | Inr v \<Rightarrow> Inr (map2 (\<lambda>row x. row[j := x]) acc v))"
    by (simp add: step_def g_def assign_column_def split: sum.splits)
  have glen: "\<forall>l v. g l = Inr v \<longrightarrow> length v = n"
    by (auto simp add: g_def split: sum.splits dest: broadcast_to_length)
  obtain l e where "l \<in> set ls" "pr l = Inl e" using assms by blast
  then have "l \<in> set ls \<and> g l = Inl e" by (simp add: g_def)
  then have "\<exists>l\<in>set ls. \<exists>e. g l = Inl e" by blast
  then have "\<exists>e. enumerate_loop step P 0 ls = Inl e"
    using enumerate_loop_raises [OF step_eq glen Plen] by blast
  then show ?thesis by (simp add: step_def P_def)
qed

text \<open>
  C10: \<^verbatim>\<open>vote\<close> of a Committee and of a DeepCommittee returns a matrix of floats of
  shape \<open>(n_samples, n_learners)\<close> whose entry for a sample and a learner is the float
  made of the label that learner predicted; when a predicted label has no float value
  the call raises and returns no matrix.
\<close>

theorem vote_is_float_matrix:
  fixes ops :: "('e, 'x, 'y) estimator_ops" and c :: "('e, 'x, 'y) Committee"
    and d :: "('e, 'y) DeepCommittee"
  shows
  "(Committee_vote as_float ops X c = Inr V \<longrightarrow>
      length V = n_rows X \<and>
      (\<forall>i<n_rows X. length (V ! i) = length (learner_list c) \<and>
         (\<forall>j<length (learner_list c).
            as_float (if length (est_predict ops (estimator (learner_list c ! j)) X) = n_rows X
                      then est_predict ops (estimator (learner_list c ! j)) X ! i
                      else est_predict ops (estimator (learner_list c ! j)) X ! 0)
              = Some (V ! i ! j)))) \<and>
   ((\<exists>l\<in>set (learner_list c). \<exists>label\<in>set (est_predict ops (estimator l) X). as_float label = None) \<longrightarrow>
      (\<exists>e. Committee_vote as_float ops X c = Inl e)) \<and>
   (DeepCommittee_vote as_float ops X d = Inr W \<longrightarrow>
      length W = n_rows X \<and>
      (\<forall>i<n_rows X. length (W ! i) = length (deep_learner_list d) \<and>
         (\<forall>j<length (deep_learner_list d).
            as_float (if length (est_predict ops (deep_estimator (deep_learner_list d ! j)) X) = n_rows X
                      then est_predict ops (deep_estimator (deep_learner_list d ! j)) X ! i
                      else est_predict ops (deep_estimator (deep_learner_list d ! j)) X ! 0)
              = Some (W ! i ! j)))) \<and>
   ((\<exists>l\<in>set (deep_learner_list d). \<exists>label\<in>set (est_predict ops (deep_estimator l) X).
        as_float label = None) \<longrightarrow>
      (\<exists>e. DeepCommittee_vote as_float ops X d = Inl e))"
proof -
  have entries: "\<And>(pred :: 'l \<Rightarrow> 'y list) ls U.
      enumerate_loop
        (\<lambda>prediction learner_idx learner.
           case cast_all as_float (pred learner) of
             Inl e \<Rightarrow> Inl e
           | Inr col \<Rightarrow> assign_column prediction learner_idx col)
        (replicate (n_rows X) (replicate (length ls) 0)) 0 ls = Inr U \<Longrightarrow>
      length U = n_rows X \<and>
      (\<forall>i<n_rows X. length (U ! i) = length ls \<and>
         (\<forall>j<length ls.
            as_float (if length (pred (ls ! j)) = n_rows X then pred (ls ! j) ! i else pred (ls ! j) ! 0)
              = Some (U ! i ! j)))"
  proof -
    fix pred :: "'l \<Rightarrow> 'y list" and ls U
    assume run: "enumerate_loop
        (\<lambda>prediction learner_idx learner.
           case cast_all as_float (pred learner) of
             Inl e \<Rightarrow> Inl e
           | Inr col \<Rightarrow> assign_column prediction learner_idx col)
        (replicate (n_rows X) (replicate (length ls) 0)) 0 ls = Inr U"
    note cl = column_loop [OF run]
    have "\<forall>i<n_rows X. length (U ! i) = length ls \<and>
         (\<forall>j<length ls.
            as_float (if length (pred (ls ! j)) = n_rows X then pred (ls ! j) ! i else pred (ls ! j) ! 0)
              = Some (U ! i ! j))"
    proof (intro allI impI conjI)
      fix i assume i: "i < n_rows X"
      show "length (U ! i) = length ls" using cl i by simp
      fix j assume j: "j < length ls"
      obtain col where col: "cast_all as_float (pred (ls ! j)) = Inr col"
        and len: "length col = n_rows X \<or> length col = 1"
        and u: "U ! i ! j = (if length col = n_rows X then col ! i else col ! 0)"
        using cl i j by blast
      note cs = cast_all_spec [OF col]
      show "as_float (if length (pred (ls ! j)) = n_rows X then pred (ls ! j) ! i else pred (ls ! j) ! 0)
              = Some (U ! i ! j)"
        using cs len u i by auto
    qed
    then show "length U = n_rows X \<and>
      (\<forall>i<n_rows X. length (U ! i) = length ls \<and>
         (\<forall>j<length ls.
            as_float (if length (pred (ls ! j)) = n_rows X then pred (ls ! j) ! i else pred (ls ! j) ! 0)
              = Some (U ! i ! j)))"
      using cl by simp
  qed
  have raises: "\<And>(pred :: 'l \<Rightarrow> 'y list) ls.
      \<exists>l\<in>set ls. \<exists>label\<in>set (pred l). as_float label = None \<Longrightarrow>
      \<exists>e. enumerate_loop
        (\<lambda>prediction learner_idx learner.
           case cast_all as_float (pred learner) of
             Inl e \<Rightarrow> Inl e
           | Inr col \<Rightarrow> assign_column prediction learner_idx col)
        (replicate (n_rows X) (replicate (length ls) (0::real))) 0 ls = Inl e"
  proof -
    fix pred :: "'l \<Rightarrow> 'y list" and ls
    assume "\<exists>l\<in>set ls. \<exists>label\<in>set (pred l). as_float label = None"
    then obtain l where "l \<in> set ls" "\<exists>label\<in>set (pred l). as_float label = None" by blast
    then have "l \<in> set ls \<and> cast_all as_float (pred l) = Inl ValueError"
      using cast_all_None [of "pred l" as_float] by simp
    then have "\<exists>l\<in>set ls. \<exists>e. cast_all as_float (pred l) = Inl e" by blast
    then show "\<exists>e. enumerate_loop
        (\<lambda>prediction learner_idx learner.
           case cast_all as_float (pred learner) of
             Inl e \<Rightarrow> Inl e
           | Inr col \<Rightarrow> assign_column prediction learner_idx col)
        (replicate (n_rows X) (replicate (length ls) (0::real))) 0 ls = Inl e"
      by (rule column_loop_raises)
  qed
  have c1: "Committee_vote as_float ops X c = Inr V \<longrightarrow>
      length V = n_rows X \<and>
      (\<forall>i<n_rows X. length (V ! i) = length (learner_list c) \<and>
         (\<forall>j<length (learner_list c).
            as_float (if length (est_predict ops (estimator (learner_list c ! j)) X) = n_rows X
                      then est_predict ops (estimator (learner_list c ! j)) X ! i
                      else est_predict ops (estimator (learner_list c ! j)) X ! 0)
              = Some (V ! i ! j)))"
    using entries [of "\<lambda>l. est_predict ops (estimator l) X" "learner_list c" V]
    by (simp add: Committee_vote_def)
  have c2: "(\<exists>l\<in>set (learner_list c). \<exists>label\<in>set (est_predict ops (estimator l) X). as_float label = None) \<longrightarrow>
      (\<exists>e. Committee_vote as_float ops X c = Inl e)"
    using raises [of "learner_list c" "\<lambda>l. est_predict ops (estimator l) X"]
    by (simp add: Committee_vote_def)
  have d1: "DeepCommittee_vote as_float ops X d = Inr W \<longrightarrow>
      length W = n_rows X \<and>
      (\<forall>i<n_rows X. length (W ! i) = length (deep_learner_list d) \<and>
         (\<forall>j<length (deep_learner_list d).
            as_float (if length (est_predict ops (deep_estimator (deep_learner_list d ! j)) X) = n_rows X
                      then est_predict ops (deep_estimator (deep_learner_list d ! j)) X ! i
                      else est_predict ops (deep_estimator (deep_learner_list d ! j)) X ! 0)
              = Some (W ! i ! j)))"
    using entries [of "\<lambda>l. est_predict ops (deep_estimator l) X" "deep_learner_list d" W]
    by (simp add: DeepCommittee_vote_def)
  have d2: "(\<exists>l\<in>set (deep_learner_list d). \<exists>label\<in>set (est_predict ops (deep_estimator l) X).
        as_float label = None) \<longrightarrow>
      (\<exists>e. DeepCommittee_vote as_float ops X d = Inl e)"
    using raises [of "deep_learner_list d" "\<lambda>l. est_predict ops (deep_estimator l) X"]
    by (simp add: DeepCommittee_vote_def)
  show ?thesis using c1 c2 d1 d2 by blast
qed

lemmas vote_eval = Committee_vote_def DeepCommittee_vote_def CommitteeRegressor_vote_def
  assign_column_def broadcast_to_def const_ops_def const_learner_def n_rows_def


theorem vote_is_float_matrix_witness:
  "Committee_vote digit_as_float const_ops (NdArray [1] [[5], [6]]) committee10
     = Inr [[1, 0], [1, 0]] \<and>
   (\<exists>e. Committee_vote digit_as_float const_ops (NdArray [1] [[5], [6]]) committee_cat = Inl e) \<and>
   DeepCommittee_vote digit_as_float const_ops (NdArray [1] [[5], [6::real]]) deep10
     = Inr [[1, 0], [1, 0]] \<and>
   (\<exists>e. DeepCommittee_vote digit_as_float const_ops (NdArray [1] [[5], [6::real]]) deep_cat = Inl e)"
proof -
  let ?X = "NdArray [1] [[5], [6::real]]"
  have v: "Committee_vote digit_as_float const_ops ?X committee10 = Inr [[1, 0], [1, 0]]"
    by (simp add: vote_eval committee10_def digit_as_float_def)
  have w: "DeepCommittee_vote digit_as_float const_ops ?X deep10 = Inr [[1, 0], [1, 0]]"
    by (simp add: vote_eval deep10_def digit_as_float_def)
  have bad: "\<exists>l\<in>set (learner_list committee_cat).
      \<exists>label\<in>set (est_predict const_ops (estimator l) ?X). digit_as_float label = None"
    by (simp add: committee_cat_def const_ops_def const_learner_def n_rows_def digit_as_float_def)
  have dbad: "\<exists>l\<in>set (deep_learner_list deep_cat).
      \<exists>label\<in>set (est_predict const_ops (deep_estimator l) ?X). digit_as_float label = None"
    by (simp add: deep_cat_def const_ops_def n_rows_def digit_as_float_def)
  note inst = vote_is_float_matrix [of digit_as_float const_ops ?X _ "[[1, 0], [1, 0]]" _ "[[1, 0], [1, 0]]"]
  have a: "length [[1, 0], [1, 0::real]] = n_rows ?X"
    using inst [of committee10 deep10] v by blast
  have b: "\<exists>e. Committee_vote digit_as_float const_ops ?X committee_cat = Inl e"
    using inst [of committee_cat deep10] bad by blast
  have c: "\<exists>e. DeepCommittee_vote digit_as_float const_ops ?X deep_cat = Inl e"
    using inst [of committee10 deep_cat] dbad by blast
  have d: "length [[1, 0], [1, 0::real]] = n_rows ?X"
    using inst [of committee10 deep10] w by blast
  show ?thesis using v w a b c d by blast
qed

section \<open>Properties of CommitteeRegressor\<close>

subsection \<open>Sums, means and deviations under a rounding\<close>














subsection \<open>Three equal doubles whose computed mean is another double\<close>






subsection \<open>The mean and the standard deviation of the votes\<close>




end
